theory Spec2Isabelle
  imports Main "HOL-Library.Sublist" "HOL-Library.AList"
begin

section \<open>JavaScript values\<close>

text \<open>
  The values that reach the SDK builder. Strings are byte strings (the UTF-8 form of a
  well-formed JavaScript string). A number is given by its decimal text, the result of
  \<^verbatim>\<open>String(n)\<close> (\<^verbatim>\<open>2\<close>, \<^verbatim>\<open>0.5\<close>, \<^verbatim>\<open>1e+21\<close>, \<^verbatim>\<open>NaN\<close>, \<^verbatim>\<open>Infinity\<close>): the code reads
  a number through that text, through its truthiness and through \<^verbatim>\<open>JSON.stringify\<close>,
  and in no other way. \<open>JFile\<close> is an instance of the platform's \<^verbatim>\<open>File\<close>, named by
  its file name. An object is its \<^verbatim>\<open>Object.entries\<close> list, its own enumerable
  properties with data values; objects have no repeated key. Form elements are not among
  the values; whether the global \<^verbatim>\<open>HTMLFormElement\<close> exists at all is a property of
  the platform, see \<open>has_HTMLFormElement\<close> below.
\<close>

datatype jsval =
    JUndefined
  | JNull
  | JBool bool
  | JNum string
  | JStr string
  | JFile string
  | JArr "jsval list"
  | JObj "(string \<times> jsval) list"

text \<open>
  An error object made by the platform or by the code, with its \<^verbatim>\<open>name\<close> and its
  \<^verbatim>\<open>message\<close>. The messages of the errors that the platform makes are the platform's
  own: those written here are the ones of V8 for the errors of the language, and stand
  for the platform's text for the errors of \<^verbatim>\<open>URL\<close> and \<^verbatim>\<open>Headers\<close>.
\<close>

record js_error =
  err_name :: string
  err_message :: string

definition TypeError :: "string \<Rightarrow> js_error" where
  "TypeError m = \<lparr>err_name = ''TypeError'', err_message = m\<rparr>"

definition Error :: "string \<Rightarrow> js_error" where
  "Error m = \<lparr>err_name = ''Error'', err_message = m\<rparr>"

definition ReferenceError :: "string \<Rightarrow> js_error" where
  "ReferenceError m = \<lparr>err_name = ''ReferenceError'', err_message = m\<rparr>"

text \<open>
  What a \<^verbatim>\<open>throw\<close> or a rejected promise carries: an error object, or any other value
  (\<^verbatim>\<open>throw null\<close>, \<^verbatim>\<open>Promise.reject()\<close>, \<^verbatim>\<open>throw { message: 42 }\<close>).
\<close>

datatype thrown = ThrownError js_error | ThrownValue jsval

text \<open>\<^verbatim>\<open>typeof v === 'object'\<close>: true of \<^verbatim>\<open>null\<close>, arrays, files and plain objects.\<close>

fun typeof_object :: "jsval \<Rightarrow> bool" where
  "typeof_object JNull = True"
| "typeof_object (JFile _) = True"
| "typeof_object (JArr _) = True"
| "typeof_object (JObj _) = True"
| "typeof_object _ = False"

fun typeof_string :: "jsval \<Rightarrow> bool" where
  "typeof_string (JStr _) = True"
| "typeof_string _ = False"

fun typeof_number :: "jsval \<Rightarrow> bool" where
  "typeof_number (JNum _) = True"
| "typeof_number _ = False"

fun instanceof_File :: "jsval \<Rightarrow> bool" where
  "instanceof_File (JFile _) = True"
| "instanceof_File _ = False"

fun isArray :: "jsval \<Rightarrow> bool" where
  "isArray (JArr _) = True"
| "isArray _ = False"

text \<open>
  Truthiness, as \<^verbatim>\<open>if (v)\<close>, \<^verbatim>\<open>!v\<close> and \<^verbatim>\<open>a || b\<close> read it. The falsy numbers
  are the two zeros, both printed \<^verbatim>\<open>0\<close>, and \<^verbatim>\<open>NaN\<close>.
\<close>

fun truthy :: "jsval \<Rightarrow> bool" where
  "truthy JUndefined = False"
| "truthy JNull = False"
| "truthy (JBool b) = b"
| "truthy (JNum t) = (t \<noteq> ''0'' \<and> t \<noteq> ''NaN'')"
| "truthy (JStr s) = (s \<noteq> [])"
| "truthy _ = True"

definition js_or :: "jsval \<Rightarrow> jsval \<Rightarrow> jsval" where
  "js_or a b = (if truthy a then a else b)"

subsection \<open>Numerals\<close>

text \<open>The decimal numeral of an array index or of an HTTP status.\<close>

definition digit_char :: "nat \<Rightarrow> char" where
  "digit_char d = char_of (48 + d)"

fun show_nat :: "nat \<Rightarrow> string" where
  "show_nat n = (if n < 10 then [digit_char n] else show_nat (n div 10) @ [digit_char (n mod 10)])"

declare show_nat.simps [simp del]

definition hex_char :: "nat \<Rightarrow> char" where
  "hex_char d = (if d < 10 then char_of (48 + d) else char_of (55 + d))"

definition hex_char_lower :: "nat \<Rightarrow> char" where
  "hex_char_lower d = (if d < 10 then char_of (48 + d) else char_of (87 + d))"

fun intercalate :: "string \<Rightarrow> string list \<Rightarrow> string" where
  "intercalate sep [] = []"
| "intercalate sep [x] = x"
| "intercalate sep (x # y # ys) = x @ sep @ intercalate sep (y # ys)"

subsection \<open>\<^verbatim>\<open>String(v)\<close>\<close>

fun js_String :: "jsval \<Rightarrow> string"
  and js_join :: "jsval list \<Rightarrow> string list" where
  "js_String JUndefined = ''undefined''"
| "js_String JNull = ''null''"
| "js_String (JBool b) = (if b then ''true'' else ''false'')"
| "js_String (JNum t) = t"
| "js_String (JStr s) = s"
| "js_String (JFile _) = ''[object File]''"
| "js_String (JArr xs) = intercalate '','' (js_join xs)"
| "js_String (JObj _) = ''[object Object]''"
| "js_join [] = []"
| "js_join (x # xs) =
     (if x = JUndefined \<or> x = JNull then [] else js_String x) # js_join xs"

subsection \<open>Own enumerable properties\<close>

fun indexed :: "nat \<Rightarrow> 'a list \<Rightarrow> (string \<times> 'a) list" where
  "indexed i [] = []"
| "indexed i (x # xs) = (show_nat i, x) # indexed (Suc i) xs"

text \<open>
  \<^verbatim>\<open>Object.entries(v)\<close>: the entries of an object, the indexed elements of an array or
  the indexed characters of a string (of ASCII text, where a character is a byte), nothing
  for a file, a number or a boolean, and a TypeError for \<^verbatim>\<open>null\<close> and
  \<^verbatim>\<open>undefined\<close>.
\<close>

fun object_entries :: "jsval \<Rightarrow> js_error + (string \<times> jsval) list" where
  "object_entries JUndefined = Inl (TypeError ''Cannot convert undefined or null to object'')"
| "object_entries JNull = Inl (TypeError ''Cannot convert undefined or null to object'')"
| "object_entries (JObj kvs) = Inr kvs"
| "object_entries (JArr xs) = Inr (indexed 0 xs)"
| "object_entries (JStr s) = Inr (indexed 0 (map (\<lambda>c. JStr [c]) s))"
| "object_entries _ = Inr []"

text \<open>
  \<^verbatim>\<open>v.k\<close> for the property names the code reads (\<^verbatim>\<open>path\<close>, \<^verbatim>\<open>method\<close>,
  \<^verbatim>\<open>$params\<close>, \<^verbatim>\<open>token\<close>, \<^verbatim>\<open>access_token\<close>, \<^verbatim>\<open>message\<close>, \<^verbatim>\<open>error\<close>,
  \<^verbatim>\<open>name\<close>): a TypeError on \<^verbatim>\<open>null\<close> and \<^verbatim>\<open>undefined\<close>, the entry of an
  object, the file name for the \<^verbatim>\<open>name\<close> of a file, \<^verbatim>\<open>undefined\<close> otherwise.
\<close>

fun get_prop :: "jsval \<Rightarrow> string \<Rightarrow> js_error + jsval" where
  "get_prop JUndefined k = Inl (TypeError (''Cannot read properties of undefined (reading '' @ [CHR 0x27] @ k @ [CHR 0x27] @ '')''))"
| "get_prop JNull k = Inl (TypeError (''Cannot read properties of null (reading '' @ [CHR 0x27] @ k @ [CHR 0x27] @ '')''))"
| "get_prop (JObj kvs) k = Inr (case map_of kvs k of Some v \<Rightarrow> v | None \<Rightarrow> JUndefined)"
| "get_prop (JFile f) k = Inr (if k = ''name'' then JStr f else JUndefined)"
| "get_prop _ k = Inr JUndefined"

text \<open>\<^verbatim>\<open>error.name\<close> and \<^verbatim>\<open>error.message\<close> of what a \<^verbatim>\<open>catch\<close> has caught.\<close>

fun thrown_prop :: "thrown \<Rightarrow> string \<Rightarrow> js_error + jsval" where
  "thrown_prop (ThrownError er) k =
     Inr (if k = ''name'' then JStr (err_name er)
          else if k = ''message'' then JStr (err_message er) else JUndefined)"
| "thrown_prop (ThrownValue v) k = get_prop v k"

section \<open>Platform functions\<close>

text \<open>
  What the code takes from the platform and the session store, as far as the request
  pipeline uses it. The parts of the platform that differ from one platform to the next,
  or that the code hands arbitrary texts, are left to the environment, and what is proved
  below holds whatever they answer: \<^verbatim>\<open>JSON.parse\<close>, the replacement through a global
  regular expression, the setter of \<^verbatim>\<open>URL.pathname\<close>, \<^verbatim>\<open>AbortSignal.timeout\<close>,
  \<^verbatim>\<open>fetch\<close> with the network behind it, and whether the global \<^verbatim>\<open>HTMLFormElement\<close>
  is defined (it is in a browser and is not in Node). A platform that defines
  \<^verbatim>\<open>HTMLFormElement\<close> defines \<^verbatim>\<open>File\<close> and \<^verbatim>\<open>FormData\<close> too. The platform
  has \<^verbatim>\<open>URL\<close> and the Fetch API (\<^verbatim>\<open>fetch\<close>, \<^verbatim>\<open>Headers\<close>, \<^verbatim>\<open>AbortSignal\<close>),
  as browsers and Node from version 18 on have.
\<close>

definition is_word :: "char \<Rightarrow> bool" where
  "is_word c = (let n = (of_char c :: nat) in
     (48 \<le> n \<and> n \<le> 57) \<or> (65 \<le> n \<and> n \<le> 90) \<or> (97 \<le> n \<and> n \<le> 122) \<or> n = 95)"

definition is_alnum :: "char \<Rightarrow> bool" where
  "is_alnum c = (let n = (of_char c :: nat) in
     (48 \<le> n \<and> n \<le> 57) \<or> (65 \<le> n \<and> n \<le> 90) \<or> (97 \<le> n \<and> n \<le> 122))"

definition percent_encode :: "char \<Rightarrow> string" where
  "percent_encode c = (let n = (of_char c :: nat) in
     [CHR ''%'', hex_char (n div 16), hex_char (n mod 16)])"

text \<open>\<^verbatim>\<open>encodeURIComponent\<close>: letters, digits and \<^verbatim>\<open>- _ . ! ~ * ' ( )\<close> stay.\<close>

definition uri_unreserved :: "char \<Rightarrow> bool" where
  "uri_unreserved c = (is_alnum c \<or> c \<in> set ''-_.!~*()'' \<or> c = CHR 0x27)"

definition encodeURIComponent :: "string \<Rightarrow> string" where
  "encodeURIComponent s = concat (map (\<lambda>c. if uri_unreserved c then [c] else percent_encode c) s)"

text \<open>The serialisation of \<^verbatim>\<open>URLSearchParams\<close> (form-urlencoded).\<close>

definition form_urlencode :: "string \<Rightarrow> string" where
  "form_urlencode s = concat (map (\<lambda>c.
     if is_alnum c \<or> c \<in> set ''*-._'' then [c]
     else if c = CHR '' '' then ''+'' else percent_encode c) s)"

definition serialize_params :: "(string \<times> string) list \<Rightarrow> string" where
  "serialize_params ps = intercalate ''&'' (map (\<lambda>(k, v). form_urlencode k @ ''='' @ form_urlencode v) ps)"

text \<open>
  An instance of the platform's \<^verbatim>\<open>URL\<close>: \<open>origin\<close> is all that stands before the path
  (scheme, host, port), \<open>search\<close> the query with its question mark or the empty text,
  \<open>searchParams\<close> the list that the \<^verbatim>\<open>URLSearchParams\<close> object of the URL holds, and
  \<open>hash\<close> the fragment with its number sign or the empty text. \<^verbatim>\<open>href\<close> is these
  texts in a row, and \<^verbatim>\<open>searchParams.append\<close> extends the list and replaces the query by
  the serialisation of the list. Assigning to \<^verbatim>\<open>pathname\<close> parses the assigned text
  again (it resolves dot segments and escapes some characters, depending on the scheme);
  the new path is what the environment's \<open>URL_pathname\<close> answers.
\<close>

record url =
  origin :: string
  pathname :: string
  search :: string
  searchParams :: "(string \<times> string) list"
  hash :: string

text \<open>
  \<^verbatim>\<open>new URL(base)\<close> of the constructor, for an absolute base of the form
  \<^verbatim>\<open>scheme://host/path\<close> that the platform's parser leaves as it is (no query or
  fragment, no dot segment, no character that the parser escapes or changes).
\<close>

fun split_scheme :: "string \<Rightarrow> (string \<times> string) option" where
  "split_scheme [] = None"
| "split_scheme (c # cs) =
     (if prefix ''://'' (c # cs) then Some ([], drop 3 (c # cs))
      else map_option (\<lambda>(s, r). (c # s, r)) (split_scheme cs))"

definition URL_parse :: "string \<Rightarrow> js_error + url" where
  "URL_parse s =
     (case split_scheme s of
        None \<Rightarrow> Inl (TypeError ''Invalid URL'')
      | Some (scheme, rest) \<Rightarrow>
          let host = takeWhile (\<lambda>c. c \<noteq> CHR ''/'') rest;
              path = dropWhile (\<lambda>c. c \<noteq> CHR ''/'') rest
          in if scheme = [] \<or> host = [] then Inl (TypeError ''Invalid URL'')
             else Inr \<lparr>origin = scheme @ ''://'' @ host,
                       pathname = (if path = [] then ''/'' else path),
                       search = [],
                       searchParams = [],
                       hash = []\<rparr>)"

definition href :: "url \<Rightarrow> string" where
  "href u = origin u @ pathname u @ search u @ hash u"

definition searchParams_append :: "string \<Rightarrow> string \<Rightarrow> url \<Rightarrow> url" where
  "searchParams_append k v u =
     u\<lparr>searchParams := searchParams u @ [(k, v)],
       search := ''?'' @ serialize_params (searchParams u @ [(k, v)])\<rparr>"

record http_response =
  resp_status :: int
  resp_ok :: bool
  resp_content_type :: "string option"
  resp_has_body :: bool
  resp_json :: "jsval option"
  resp_text :: "string option"

text \<open>
  A response as the code reads it: \<open>resp_json\<close> and \<open>resp_text\<close> are what
  \<^verbatim>\<open>json()\<close> and \<^verbatim>\<open>text()\<close> resolve to, \<open>None\<close> when they reject. The Fetch
  standard defines \<^verbatim>\<open>ok\<close> as a status from 200 to 299.
\<close>

definition fetch_standard :: "http_response \<Rightarrow> bool" where
  "fetch_standard r = (resp_ok r = (200 \<le> resp_status r \<and> resp_status r \<le> 299))"

datatype fetch_result = FetchResolves http_response | FetchRejects thrown

datatype form_entry = FormFile string | FormText string

datatype body = BodyString string | BodyFormData "(string \<times> form_entry) list"

text \<open>
  What \<^verbatim>\<open>fetch\<close> is called with: the address, and the method, the headers, the body,
  the signal (by the number of milliseconds after which it aborts) and the credentials
  mode of the second argument.
\<close>

record request =
  req_url :: string
  req_method :: string
  req_headers :: "(string \<times> string) list"
  req_body :: "body option"
  req_timeout :: nat
  req_credentials :: string

text \<open>
  What \<^verbatim>\<open>fetch\<close> does with a request when nothing aborts it: after \<open>latency\<close>
  milliseconds (or never) its promise settles as \<open>reply\<close> says, with a response whose
  head has arrived or with a rejection (a request that \<^verbatim>\<open>fetch\<close> refuses is a
  rejection too); the body of a response has been read in full \<open>body_latency\<close>
  milliseconds after the call (or never).
\<close>

record network_reply =
  latency :: "nat option"
  reply :: fetch_result
  body_latency :: "nat option"

text \<open>
  The global \<^verbatim>\<open>localStorage\<close>: not defined, defined with its items in the order of
  \<^verbatim>\<open>key(i)\<close>, or defined but denied (a browser that blocks storage throws a
  \<^verbatim>\<open>SecurityError\<close> on every access to it).
\<close>

datatype storage =
    StorageUndefined
  | StorageDenied js_error
  | StorageItems "(string \<times> string) list"

record env =
  has_HTMLFormElement :: bool
  localStorage :: storage
  URL_pathname :: "url \<Rightarrow> string \<Rightarrow> string"
  AbortSignal_timeout :: "jsval \<Rightarrow> js_error + nat"
  network :: "request \<Rightarrow> network_reply"
  timeout_text :: string
  JSON_parse :: "string \<Rightarrow> jsval option"
  RegExp_replace_all :: "string \<Rightarrow> string \<Rightarrow> string \<Rightarrow> js_error + string"

definition set_pathname :: "env \<Rightarrow> string \<Rightarrow> url \<Rightarrow> url" where
  "set_pathname e p u = u\<lparr>pathname := URL_pathname e u p\<rparr>"

text \<open>
  \<^verbatim>\<open>AbortSignal.timeout(v)\<close> either throws (a negative number, one that is not finite
  or is too large; which numbers exactly, and with which error, depends on the platform)
  or makes a signal that aborts after a number of milliseconds with a
  \<^verbatim>\<open>DOMException\<close> named \<^verbatim>\<open>TimeoutError\<close>, whose message is the platform's own. A
  \<^verbatim>\<open>fetch\<close> with that signal rejects with it when the head of the response has not
  arrived by then. When the head has arrived and the signal aborts while the body is still
  being read, it is \<^verbatim>\<open>json()\<close> and \<^verbatim>\<open>text()\<close> that reject.
\<close>

definition exceeds :: "nat option \<Rightarrow> nat \<Rightarrow> bool" where
  "exceeds l ms = (case l of None \<Rightarrow> True | Some d \<Rightarrow> ms < d)"

definition timeout_error :: "env \<Rightarrow> js_error" where
  "timeout_error e = \<lparr>err_name = ''TimeoutError'', err_message = timeout_text e\<rparr>"

definition platform_fetch :: "env \<Rightarrow> request \<Rightarrow> fetch_result" where
  "platform_fetch e rq =
     (if exceeds (latency (network e rq)) (req_timeout rq)
      then FetchRejects (ThrownError (timeout_error e))
      else (case reply (network e rq) of
              FetchRejects er \<Rightarrow> FetchRejects er
            | FetchResolves r \<Rightarrow>
                FetchResolves (if exceeds (body_latency (network e rq)) (req_timeout rq)
                               then r\<lparr>resp_json := None, resp_text := None\<rparr> else r)))"

subsection \<open>\<^verbatim>\<open>Headers\<close>\<close>

text \<open>
  A header list as the Fetch standard has it: names are compared without regard to case,
  \<^verbatim>\<open>append\<close> (used by the constructor for each entry of a record) adds an entry,
  \<^verbatim>\<open>set\<close> replaces the entries of the name by one, \<^verbatim>\<open>get\<close> combines the values of
  a name. Both \<^verbatim>\<open>append\<close> and \<^verbatim>\<open>set\<close> strip leading and trailing HTTP whitespace
  (tab, line feed, carriage return, space) from the value, and throw a TypeError for a
  name that is no token, for a value that holds a NUL, a line feed or a carriage return
  after that, and for a name or value with a character above U+00FF (in UTF-8: a byte
  from \<open>0xC4\<close> on).
\<close>

definition lower_char :: "char \<Rightarrow> char" where
  "lower_char c = (let n = (of_char c :: nat) in if 65 \<le> n \<and> n \<le> 90 then char_of (n + 32) else c)"

definition lower :: "string \<Rightarrow> string" where
  "lower s = map lower_char s"

definition http_whitespace :: "char \<Rightarrow> bool" where
  "http_whitespace c = (c = CHR 0x09 \<or> c = CHR 0x0A \<or> c = CHR 0x0D \<or> c = CHR 0x20)"

definition normalize_value :: "string \<Rightarrow> string" where
  "normalize_value v = rev (dropWhile http_whitespace (rev (dropWhile http_whitespace v)))"

definition is_tchar :: "char \<Rightarrow> bool" where
  "is_tchar c = (is_alnum c \<or>
     c \<in> set [CHR 0x21, CHR 0x23, CHR 0x24, CHR 0x25, CHR 0x26, CHR 0x27, CHR 0x2A, CHR 0x2B,
              CHR 0x2D, CHR 0x2E, CHR 0x5E, CHR 0x5F, CHR 0x60, CHR 0x7C, CHR 0x7E])"

definition is_header_name :: "string \<Rightarrow> bool" where
  "is_header_name n = (n \<noteq> [] \<and> list_all is_tchar n)"

definition is_header_value :: "string \<Rightarrow> bool" where
  "is_header_value v = (\<not> list_ex (\<lambda>c. c = CHR 0x00 \<or> c = CHR 0x0A \<or> c = CHR 0x0D) v)"

definition is_byte_string :: "string \<Rightarrow> bool" where
  "is_byte_string s = list_all (\<lambda>c. (of_char c :: nat) < 196) s"

definition legal_header :: "string \<Rightarrow> string \<Rightarrow> bool" where
  "legal_header name v =
     (is_byte_string name \<and> is_byte_string v \<and> is_header_name name \<and>
      is_header_value (normalize_value v))"

definition invalid_header :: "string \<Rightarrow> string \<Rightarrow> js_error" where
  "invalid_header name v =
     (if is_byte_string name \<and> is_byte_string v \<and> is_header_name name
      then TypeError ''Invalid header value''
      else if is_byte_string name \<and> is_byte_string v then TypeError ''Invalid header name''
      else TypeError ''Cannot convert argument to a ByteString'')"

definition same_name :: "string \<Rightarrow> string \<times> string \<Rightarrow> bool" where
  "same_name name nv = (lower (fst nv) = lower name)"

fun set_first :: "string \<Rightarrow> string \<Rightarrow> (string \<times> string) list \<Rightarrow> (string \<times> string) list" where
  "set_first name v [] = []"
| "set_first name v (nv # rest) =
     (if same_name name nv then (fst nv, v) # filter (\<lambda>x. \<not> same_name name x) rest
      else nv # set_first name v rest)"

definition headers_set :: "string \<Rightarrow> string \<Rightarrow> (string \<times> string) list
      \<Rightarrow> js_error + (string \<times> string) list" where
  "headers_set name v h =
     (if \<not> legal_header name v then Inl (invalid_header name v)
      else if list_ex (same_name name) h then Inr (set_first name (normalize_value v) h)
      else Inr (h @ [(name, normalize_value v)]))"

definition headers_append :: "string \<Rightarrow> string \<Rightarrow> (string \<times> string) list
      \<Rightarrow> js_error + (string \<times> string) list" where
  "headers_append name v h =
     (if \<not> legal_header name v then Inl (invalid_header name v)
      else Inr (h @ [(case find (same_name name) h of Some nv \<Rightarrow> fst nv | None \<Rightarrow> name,
                      normalize_value v)]))"

fun fill_headers :: "(string \<times> string) list \<Rightarrow> (string \<times> string) list
      \<Rightarrow> js_error + (string \<times> string) list" where
  "fill_headers [] h = Inr h"
| "fill_headers (nv # rest) h =
     (case headers_append (fst nv) (snd nv) h of
        Inl er \<Rightarrow> Inl er
      | Inr h' \<Rightarrow> fill_headers rest h')"

definition new_Headers :: "(string \<times> string) list \<Rightarrow> js_error + (string \<times> string) list" where
  "new_Headers init = fill_headers init []"


section \<open>The SDK builder\<close>

subsection \<open>Strings, as the code's string methods and regular expressions read them\<close>

text \<open>\<^verbatim>\<open>s.includes(t)\<close>.\<close>

fun str_includes :: "string \<Rightarrow> string \<Rightarrow> bool" where
  "str_includes [] t = (t = [])"
| "str_includes (c # cs) t = (prefix t (c # cs) \<or> str_includes cs t)"

text \<open>\<^verbatim>\<open>s.replace(/\/$/, "")\<close> and \<^verbatim>\<open>s.replace(/^\//, "")\<close>.\<close>

definition strip_trailing_slash :: "string \<Rightarrow> string" where
  "strip_trailing_slash s = (if s \<noteq> [] \<and> last s = CHR ''/'' then butlast s else s)"

definition strip_leading_slash :: "string \<Rightarrow> string" where
  "strip_leading_slash s = (case s of [] \<Rightarrow> [] | c # cs \<Rightarrow> if c = CHR ''/'' then cs else s)"

text \<open>\<^verbatim>\<open>s.match(/:\w+/)\<close>: the leftmost colon followed by word characters, with all of them.\<close>

fun match_placeholder :: "string \<Rightarrow> string option" where
  "match_placeholder [] = None"
| "match_placeholder (c # cs) =
     (if c = CHR '':'' \<and> takeWhile is_word cs \<noteq> [] then Some (c # takeWhile is_word cs)
      else match_placeholder cs)"

text \<open>
  \<^verbatim>\<open>s.replace(pat, rep)\<close> with a string pattern replaces its first occurrence. The
  replacement texts the code passes come from \<^verbatim>\<open>encodeURIComponent\<close> and hold no
  dollar sign, so no replacement pattern is expanded.
\<close>

fun replace_first :: "string \<Rightarrow> string \<Rightarrow> string \<Rightarrow> string" where
  "replace_first [] pat rep = (if pat = [] then rep else [])"
| "replace_first (c # cs) pat rep =
     (if prefix pat (c # cs) then rep @ drop (length pat) (c # cs)
      else c # replace_first cs pat rep)"

subsection \<open>\<^verbatim>\<open>JSON.stringify\<close>\<close>

definition json_escape :: "char \<Rightarrow> string" where
  "json_escape c = (let n = (of_char c :: nat) in
     if n = 34 then [CHR 0x5C, CHR 0x22]
     else if n = 92 then [CHR 0x5C, CHR 0x5C]
     else if n = 8 then [CHR 0x5C, CHR ''b'']
     else if n = 12 then [CHR 0x5C, CHR ''f'']
     else if n = 10 then [CHR 0x5C, CHR ''n'']
     else if n = 13 then [CHR 0x5C, CHR ''r'']
     else if n = 9 then [CHR 0x5C, CHR ''t'']
     else if n < 32 then [CHR 0x5C, CHR ''u'', CHR ''0'', CHR ''0'', hex_char_lower (n div 16), hex_char_lower (n mod 16)]
     else [c])"

definition json_quote :: "string \<Rightarrow> string" where
  "json_quote s = CHR 0x22 # concat (map json_escape s) @ [CHR 0x22]"

text \<open>
  The result is \<open>None\<close> where \<^verbatim>\<open>JSON.stringify\<close> returns \<^verbatim>\<open>undefined\<close>. A property
  whose value is \<^verbatim>\<open>undefined\<close> is left out, an array element that is \<^verbatim>\<open>undefined\<close>
  becomes \<^verbatim>\<open>null\<close>, a number that is not finite becomes \<^verbatim>\<open>null\<close>, and a
  \<^verbatim>\<open>File\<close>, which has no enumerable property of its own, becomes \<^verbatim>\<open>{}\<close>.
\<close>

fun JSON_stringify :: "jsval \<Rightarrow> string option"
  and stringify_fields :: "(string \<times> jsval) list \<Rightarrow> string list"
  and stringify_items :: "jsval list \<Rightarrow> string list" where
  "JSON_stringify JUndefined = None"
| "JSON_stringify JNull = Some ''null''"
| "JSON_stringify (JBool b) = Some (if b then ''true'' else ''false'')"
| "JSON_stringify (JNum t) =
     Some (if t = ''NaN'' \<or> t = ''Infinity'' \<or> t = ''-Infinity'' then ''null'' else t)"
| "JSON_stringify (JStr s) = Some (json_quote s)"
| "JSON_stringify (JFile _) = Some ''{}''"
| "JSON_stringify (JArr xs) = Some (''['' @ intercalate '','' (stringify_items xs) @ '']'')"
| "JSON_stringify (JObj kvs) = Some (''{'' @ intercalate '','' (stringify_fields kvs) @ ''}'')"
| "stringify_fields [] = []"
| "stringify_fields ((k, v) # rest) =
     (case JSON_stringify v of
        None \<Rightarrow> stringify_fields rest
      | Some t \<Rightarrow> (json_quote k @ '':'' @ t) # stringify_fields rest)"
| "stringify_items [] = []"
| "stringify_items (x # xs) =
     (case JSON_stringify x of None \<Rightarrow> ''null'' | Some t \<Rightarrow> t) # stringify_items xs"

subsection \<open>Data of the class\<close>

record endpoint =
  ep_path :: string
  ep_method :: string

text \<open>
  The \<^verbatim>\<open>response\<close> of an envelope: the data read from the HTTP response, or the
  object \<^verbatim>\<open>{ message, errorDetails }\<close> of the \<^verbatim>\<open>catch\<close> block.
\<close>

datatype response_data =
    Parsed jsval
  | Failure jsval thrown

record envelope =
  success :: bool
  ok :: bool
  response :: response_data
  status :: int

text \<open>
  What \<^verbatim>\<open>this.onInvalidCredential(result)\<close> does, as \<^verbatim>\<open>await\<close> sees it: it returns
  no promise, throws, or returns a promise that is fulfilled, is rejected or never settles.
  The callback is handed the envelope object itself and may write to it: where the
  \<^verbatim>\<open>await\<close> completes normally, the result carries the envelope as it is then.
\<close>

datatype cb_result =
    CbVoid envelope
  | CbThrows thrown
  | CbFulfils envelope
  | CbRejects thrown
  | CbNeverSettles

text \<open>
  A node of the generated client: a function when it carries an endpoint (with its debug
  path), and in any case an object with properties.
\<close>

datatype client = Node "(endpoint \<times> string) option" "(string \<times> client) list"

record config =
  cfg_base :: "string option"
  cfg_endpoints :: jsval
  cfg_onInvalidCredential :: "(envelope \<Rightarrow> cb_result) option"
  cfg_defaultHeaders :: "(string \<times> string) list option"
  cfg_requestTimeout :: jsval

record sdk =
  baseUrl :: url
  onInvalidCredential :: "envelope \<Rightarrow> cb_result"
  defaultHeaders :: "(string \<times> string) list"
  requestTimeout :: jsval

definition lookup :: "(string \<times> jsval) list \<Rightarrow> string \<Rightarrow> jsval" where
  "lookup kvs k = (case map_of kvs k of Some v \<Rightarrow> v | None \<Rightarrow> JUndefined)"

subsection \<open>\<^verbatim>\<open>_isActualEndpointConfig\<close> and \<^verbatim>\<open>_initializeEndpoints\<close>\<close>

definition isActualEndpointConfig :: "jsval \<Rightarrow> js_error + bool" where
  "isActualEndpointConfig cv =
     (case get_prop cv ''path'' of
        Inl e \<Rightarrow> Inl e
      | Inr p \<Rightarrow>
          if typeof_string p then
            (case get_prop cv ''method'' of Inl e \<Rightarrow> Inl e | Inr m \<Rightarrow> Inr (typeof_string m))
          else Inr False)"

definition endpoint_of :: "jsval \<Rightarrow> endpoint" where
  "endpoint_of cv = \<lparr>ep_path = js_String (lookup (case cv of JObj kvs \<Rightarrow> kvs | _ \<Rightarrow> []) ''path''),
                     ep_method = js_String (lookup (case cv of JObj kvs \<Rightarrow> kvs | _ \<Rightarrow> []) ''method'')\<rparr>"

definition invalid_warning :: "string \<Rightarrow> string" where
  "invalid_warning currentPath =
     ''[SDKBuilder] Invalid configuration for endpoint key: '' @ currentPath @
     ''. Expected an object or EndpointConfig.''"

definition key_path :: "string \<Rightarrow> string \<Rightarrow> string" where
  "key_path parentKeyPath key = (if parentKeyPath \<noteq> [] then parentKeyPath @ ''.'' @ key else key)"

text \<open>
  The names that every object inherits from \<^verbatim>\<open>Object.prototype\<close>. Under such a key
  \<^verbatim>\<open>currentObjectBranch[key]\<close> is the inherited member, not \<^verbatim>\<open>undefined\<close>, and an
  assignment to \<^verbatim>\<open>__proto__\<close> makes no property. \<open>branch_or_fresh\<close> below reads
  own properties only: it is \<^verbatim>\<open>currentObjectBranch[key] || {}\<close> for every other key.
\<close>

definition inherited_members :: "string list" where
  "inherited_members =
     [''__defineGetter__'', ''__defineSetter__'', ''__lookupGetter__'', ''__lookupSetter__'',
      ''__proto__'', ''constructor'', ''hasOwnProperty'', ''isPrototypeOf'',
      ''propertyIsEnumerable'', ''toLocaleString'', ''toString'', ''valueOf'']"

definition branch_or_fresh :: "(string \<times> client) list \<Rightarrow> string \<Rightarrow> client" where
  "branch_or_fresh branch key = (case map_of branch key of Some n \<Rightarrow> n | None \<Rightarrow> Node None [])"

text \<open>
  \<^verbatim>\<open>Object.entries(v)\<close> for a value that is known to be a non-null object, and a
  measure of values under which these entries are smaller than the value.
\<close>

fun own_entries :: "jsval \<Rightarrow> (string \<times> jsval) list" where
  "own_entries (JObj kvs) = kvs"
| "own_entries (JArr xs) = indexed 0 xs"
| "own_entries _ = []"

fun jsize :: "jsval \<Rightarrow> nat"
  and jsize_list :: "jsval list \<Rightarrow> nat"
  and jsize_fields :: "(string \<times> jsval) list \<Rightarrow> nat" where
  "jsize (JArr xs) = Suc (jsize_list xs)"
| "jsize (JObj kvs) = Suc (jsize_fields kvs)"
| "jsize JUndefined = 0"
| "jsize JNull = 0"
| "jsize (JBool _) = 0"
| "jsize (JNum _) = 0"
| "jsize (JStr _) = 0"
| "jsize (JFile _) = 0"
| "jsize_list [] = 0"
| "jsize_list (x # xs) = Suc (jsize x + jsize_list xs)"
| "jsize_fields [] = 0"
| "jsize_fields (kv # rest) = Suc (jsize (snd kv) + jsize_fields rest)"

lemma jsize_fields_indexed [simp]: "jsize_fields (indexed i xs) = jsize_list xs"
  by (induction xs arbitrary: i) auto

lemma jsize_own_entries: "jsize_fields (own_entries v) \<le> jsize v"
  by (cases v) auto

definition leaf_result :: "string \<Rightarrow> jsval \<Rightarrow> (string \<times> client) list \<Rightarrow> string \<Rightarrow> (string \<times> client) list" where
  "leaf_result key configValue branch currentPath =
     AList.update key (Node (Some (endpoint_of configValue, currentPath)) []) branch"

fun node_props :: "client \<Rightarrow> (string \<times> client) list" where
  "node_props (Node f props) = props"

fun node_with_props :: "client \<Rightarrow> (string \<times> client) list \<Rightarrow> client" where
  "node_with_props (Node f _) props = Node f props"

text \<open>
  The three branches of the loop body: \<^verbatim>\<open>_isActualEndpointConfig\<close> comes first and may
  throw; a value that is no endpoint is a group when it is a non-null object.
\<close>

datatype node_kind = Leaf | Group | Invalid

definition classify :: "jsval \<Rightarrow> js_error + node_kind" where
  "classify configValue =
     (case isActualEndpointConfig configValue of
        Inl e \<Rightarrow> Inl e
      | Inr b \<Rightarrow>
          if b then Inr Leaf
          else if typeof_object configValue \<and> configValue \<noteq> JNull then Inr Group
          else Inr Invalid)"

text \<open>
  The walk over \<^verbatim>\<open>Object.entries(endpointsConfig)\<close>. The target branch and the warnings
  written to the console are passed along; an exception ends the walk. For a group,
  \<^verbatim>\<open>currentObjectBranch[key] || {}\<close> is the node already there or a fresh object, and the
  inner walk fills it. This is the walk for keys that are not among
  \<open>inherited_members\<close>.
\<close>

function init_entries :: "(string \<times> jsval) list \<Rightarrow> (string \<times> client) list \<Rightarrow> string \<Rightarrow> string list
      \<Rightarrow> js_error + ((string \<times> client) list \<times> string list)" where
  "init_entries [] branch parentKeyPath warns = Inr (branch, warns)"
| "init_entries (kv # rest) branch parentKeyPath warns =
     (case classify (snd kv) of
        Inl e \<Rightarrow> Inl e
      | Inr Leaf \<Rightarrow>
          init_entries rest (leaf_result (fst kv) (snd kv) branch (key_path parentKeyPath (fst kv)))
            parentKeyPath warns
      | Inr Group \<Rightarrow>
          (case init_entries (own_entries (snd kv)) (node_props (branch_or_fresh branch (fst kv)))
                  (key_path parentKeyPath (fst kv)) warns of
             Inl e \<Rightarrow> Inl e
           | Inr pw \<Rightarrow>
               init_entries rest
                 (AList.update (fst kv) (node_with_props (branch_or_fresh branch (fst kv)) (fst pw)) branch)
                 parentKeyPath (snd pw))
      | Inr Invalid \<Rightarrow>
          init_entries rest branch parentKeyPath
            (warns @ [invalid_warning (key_path parentKeyPath (fst kv))]))"
  by pat_completeness auto
termination
proof (relation "measure (\<lambda>(entries, _). jsize_fields entries)")
  show "wf (measure (\<lambda>(entries, _). jsize_fields entries))" by simp
qed (use jsize_own_entries in \<open>auto simp: less_Suc_eq_le intro: le_trans trans_le_add1\<close>)

definition initializeEndpoints :: "jsval \<Rightarrow> (string \<times> client) list \<Rightarrow> string \<Rightarrow> string list
      \<Rightarrow> js_error + ((string \<times> client) list \<times> string list)" where
  "initializeEndpoints endpointsConfig branch parentKeyPath warns =
     (case object_entries endpointsConfig of
        Inl e \<Rightarrow> Inl e
      | Inr entries \<Rightarrow> init_entries entries branch parentKeyPath warns)"

subsection \<open>The constructor\<close>

definition json_accept :: "(string \<times> string) list" where
  "json_accept = [(''Accept'', ''application/json'')]"

definition ensure_accept :: "(string \<times> string) list \<Rightarrow> (string \<times> string) list" where
  "ensure_accept h =
     (case map_of h ''Accept'' of
        None \<Rightarrow> AList.update ''Accept'' ''application/json'' h
      | Some v \<Rightarrow> if v = [] then AList.update ''Accept'' ''application/json'' h else h)"

text \<open>
  The result is the instance, its \<^verbatim>\<open>fetch\<close> tree and the warnings logged, or the
  exception thrown. An absent or empty \<^verbatim>\<open>base\<close> is refused; a falsy
  \<^verbatim>\<open>requestTimeout\<close> (absent, zero, \<^verbatim>\<open>NaN\<close>) becomes 30000.
\<close>

definition constructor :: "config \<Rightarrow> js_error + (sdk \<times> (string \<times> client) list \<times> string list)" where
  "constructor cfg =
     (case cfg_base cfg of
        None \<Rightarrow> Inl (Error ''[SDKBuilder] 'base' URL configuration is required.'')
      | Some base \<Rightarrow>
          if base = [] then Inl (Error ''[SDKBuilder] 'base' URL configuration is required.'')
          else
            (case URL_parse base of
               Inl e \<Rightarrow> Inl e
             | Inr u \<Rightarrow>
                 (case initializeEndpoints (cfg_endpoints cfg) [] [] [] of
                    Inl e \<Rightarrow> Inl e
                  | Inr tw \<Rightarrow>
                      Inr (\<lparr>baseUrl = u,
                            onInvalidCredential =
                              (case cfg_onInvalidCredential cfg of Some f \<Rightarrow> f | None \<Rightarrow> CbFulfils),
                            defaultHeaders =
                              ensure_accept (case cfg_defaultHeaders cfg of Some h \<Rightarrow> h | None \<Rightarrow> json_accept),
                            requestTimeout = js_or (cfg_requestTimeout cfg) (JNum ''30000'')\<rparr>,
                           fst tw, snd tw))))"

subsection \<open>Argument resolution (the head of the generated function)\<close>

text \<open>
  The \<^verbatim>\<open>forEach\<close> over the entries of \<^verbatim>\<open>$params\<close>: the first value that is a
  non-null object ends it with an exception.
\<close>

definition params_error :: "string \<Rightarrow> jsval \<Rightarrow> js_error" where
  "params_error key v =
     Error (''Path parameter '' @ [CHR 0x27] @ key @ [CHR 0x27] @
            '' in $params cannot be an object. Received: '' @
            (case JSON_stringify v of Some t \<Rightarrow> t | None \<Rightarrow> ''undefined''))"

fun check_params :: "(string \<times> jsval) list \<Rightarrow> js_error option" where
  "check_params [] = None"
| "check_params (kv # rest) =
     (if typeof_object (snd kv) \<and> snd kv \<noteq> JNull then Some (params_error (fst kv) (snd kv))
      else check_params rest)"

text \<open>
  \<^verbatim>\<open>v instanceof HTMLFormElement\<close> for one of the values above: where the global is
  defined the test is false, none of them being a form element, and the result here is
  \<open>None\<close>; where the global is not defined, evaluating the test throws the
  ReferenceError that is the result here.
\<close>

definition instanceof_HTMLFormElement :: "env \<Rightarrow> jsval \<Rightarrow> js_error option" where
  "instanceof_HTMLFormElement e v =
     (if has_HTMLFormElement e then None
      else Some (ReferenceError ''HTMLFormElement is not defined''))"

text \<open>
  The pair is \<open>(pathParamsSource, payloadSource)\<close>. \<open>own_entries a\<close> is the copy
  \<^verbatim>\<open>{ ...idOrParamsPayload }\<close>. The test \<^verbatim>\<open>instanceof HTMLFormElement\<close> is reached
  when there is no second argument and the first is a non-null object.
\<close>

definition resolve_args :: "env \<Rightarrow> jsval \<Rightarrow> jsval \<Rightarrow> js_error + (jsval \<times> jsval)" where
  "resolve_args e idOrParamsPayload directPayload =
     (if directPayload \<noteq> JUndefined then Inr (idOrParamsPayload, directPayload)
      else if typeof_object idOrParamsPayload \<and> idOrParamsPayload \<noteq> JNull then
        (case instanceof_HTMLFormElement e idOrParamsPayload of
           Some er \<Rightarrow> Inl er
         | None \<Rightarrow>
             (let singleArgObject = own_entries idOrParamsPayload;
                  params = lookup singleArgObject ''$params''
              in if truthy params \<and> typeof_object params then
                   (case check_params (own_entries params) of
                      Some er \<Rightarrow> Inl er
                    | None \<Rightarrow> Inr (params, JObj (AList.delete ''$params'' singleArgObject)))
                 else Inr (JUndefined, JObj singleArgObject)))
      else Inr (idOrParamsPayload, JUndefined))"

subsection \<open>\<^verbatim>\<open>_buildUrl\<close>\<close>

definition nullish_to_empty :: "jsval \<Rightarrow> jsval" where
  "nullish_to_empty v = (if v = JUndefined \<or> v = JNull then JStr [] else v)"

text \<open>The \<^verbatim>\<open>forEach\<close> over the entries of an object of path parameters.\<close>

fun substitute_named :: "env \<Rightarrow> (string \<times> jsval) list \<Rightarrow> string \<Rightarrow> js_error + string" where
  "substitute_named e [] tempPath = Inr tempPath"
| "substitute_named e (kv # rest) tempPath =
     (if str_includes tempPath ('':'' @ fst kv) then
        (case RegExp_replace_all e ('':'' @ fst kv) tempPath
                (encodeURIComponent (js_String (nullish_to_empty (snd kv)))) of
           Inl er \<Rightarrow> Inl er
         | Inr t \<Rightarrow> substitute_named e rest t)
      else substitute_named e rest tempPath)"

definition substitute_scalar :: "jsval \<Rightarrow> string \<Rightarrow> string" where
  "substitute_scalar pathParamsSource tempPath =
     (case match_placeholder tempPath of
        Some m \<Rightarrow> replace_first tempPath m (encodeURIComponent (js_String pathParamsSource))
      | None \<Rightarrow> tempPath)"

definition join_paths :: "string \<Rightarrow> string \<Rightarrow> string" where
  "join_paths basePathname path = strip_trailing_slash basePathname @ ''/'' @ strip_leading_slash path"

text \<open>
  The URL is a copy of the base URL. Its path is assigned twice: the joined path first,
  and what the assignment has made of it is read back into \<^verbatim>\<open>tempPath\<close>; then
  \<^verbatim>\<open>tempPath\<close> after the substitution.
\<close>

definition buildUrl :: "env \<Rightarrow> sdk \<Rightarrow> endpoint \<Rightarrow> jsval \<Rightarrow> js_error + url" where
  "buildUrl e this endpointConfig pathParamsSource =
     (let url = set_pathname e (join_paths (pathname (baseUrl this)) (ep_path endpointConfig))
                  (baseUrl this);
          tempPath = pathname url
      in if pathParamsSource \<noteq> JUndefined \<and> pathParamsSource \<noteq> JNull then
           if typeof_string pathParamsSource \<or> typeof_number pathParamsSource then
             Inr (set_pathname e (substitute_scalar pathParamsSource tempPath) url)
           else if typeof_object pathParamsSource then
             (case substitute_named e (own_entries pathParamsSource) tempPath of
                Inl er \<Rightarrow> Inl er
              | Inr t \<Rightarrow> Inr (set_pathname e t url))
           else Inr (set_pathname e tempPath url)
         else Inr (set_pathname e tempPath url))"

subsection \<open>\<^verbatim>\<open>_createFormDataFromObject\<close>\<close>

definition child_key :: "string option \<Rightarrow> string \<Rightarrow> string" where
  "child_key parentKey key =
     (case parentKey of
        None \<Rightarrow> key
      | Some p \<Rightarrow> if p \<noteq> [] then p @ ''['' @ key @ '']'' else key)"

definition array_key :: "string \<Rightarrow> nat \<Rightarrow> string" where
  "array_key currentKey index = currentKey @ ''['' @ show_nat index @ '']''"

definition is_plain_object :: "jsval \<Rightarrow> bool" where
  "is_plain_object item = (typeof_object item \<and> item \<noteq> JNull \<and> \<not> instanceof_File item)"

definition form_value :: "jsval \<Rightarrow> form_entry" where
  "form_value item = (case item of JFile f \<Rightarrow> FormFile f | _ \<Rightarrow> FormText (js_String item))"

fun array_items :: "jsval \<Rightarrow> jsval list" where
  "array_items (JArr xs) = xs"
| "array_items _ = []"

lemma jsize_array_items: "jsize_list (array_items v) \<le> jsize v"
  by (cases v) auto

text \<open>
  \<open>cfd_entries\<close> is the loop over \<^verbatim>\<open>Object.entries(obj)\<close>, \<open>cfd_items\<close> the loop
  over the items of an array value with their indices; the form data grows by
  \<^verbatim>\<open>append\<close>.
\<close>

function cfd_entries :: "(string \<times> jsval) list \<Rightarrow> (string \<times> form_entry) list \<Rightarrow> string option
      \<Rightarrow> (string \<times> form_entry) list"
  and cfd_items :: "string \<Rightarrow> nat \<Rightarrow> jsval list \<Rightarrow> (string \<times> form_entry) list
      \<Rightarrow> (string \<times> form_entry) list" where
  "cfd_entries [] formData parentKey = formData"
| "cfd_entries (kv # rest) formData parentKey =
     cfd_entries rest
       (if instanceof_File (snd kv) then formData @ [(child_key parentKey (fst kv), form_value (snd kv))]
        else if isArray (snd kv) then
          cfd_items (child_key parentKey (fst kv)) 0 (array_items (snd kv)) formData
        else if typeof_object (snd kv) \<and> snd kv \<noteq> JNull then
          cfd_entries (own_entries (snd kv)) formData (Some (child_key parentKey (fst kv)))
        else if snd kv \<noteq> JUndefined \<and> snd kv \<noteq> JNull then
          formData @ [(child_key parentKey (fst kv), FormText (js_String (snd kv)))]
        else formData)
       parentKey"
| "cfd_items currentKey index [] formData = formData"
| "cfd_items currentKey index (item # rest) formData =
     cfd_items currentKey (Suc index) rest
       (if is_plain_object item then
          cfd_entries (own_entries item) formData (Some (array_key currentKey index))
        else if item \<noteq> JUndefined \<and> item \<noteq> JNull then
          formData @ [(array_key currentKey index, form_value item)]
        else formData)"
  by pat_completeness auto
termination
proof (relation "measure (\<lambda>x. case x of Inl (entries, _) \<Rightarrow> jsize_fields entries
                                     | Inr (_, _, items, _) \<Rightarrow> jsize_list items)")
  show "wf (measure (\<lambda>x. case x of Inl (entries, _) \<Rightarrow> jsize_fields entries
                                     | Inr (_, _, items, _) \<Rightarrow> jsize_list items))" by simp
qed (use jsize_own_entries jsize_array_items in \<open>auto simp: less_Suc_eq_le intro: le_trans trans_le_add1\<close>)

definition createFormDataFromObject :: "jsval \<Rightarrow> (string \<times> form_entry) list" where
  "createFormDataFromObject obj = cfd_entries (own_entries obj) [] None"

subsection \<open>\<^verbatim>\<open>_prepareRequestBodyAndHeaders\<close>\<close>

text \<open>The two loops that fill \<^verbatim>\<open>url.searchParams\<close> for GET and DELETE.\<close>

fun append_items :: "string \<Rightarrow> jsval list \<Rightarrow> url \<Rightarrow> url" where
  "append_items key [] u = u"
| "append_items key (vItem # rest) u =
     append_items key rest (if vItem \<noteq> JNull then searchParams_append key (js_String vItem) u else u)"

fun append_query :: "(string \<times> jsval) list \<Rightarrow> url \<Rightarrow> url" where
  "append_query [] u = u"
| "append_query (kv # rest) u =
     append_query rest
       (if snd kv \<noteq> JUndefined \<and> snd kv \<noteq> JNull then
          (if isArray (snd kv) then append_items (fst kv) (array_items (snd kv)) u
           else searchParams_append (fst kv) (js_String (snd kv)) u)
        else u)"

definition hasFiles :: "jsval \<Rightarrow> bool" where
  "hasFiles payloadSource =
     list_ex (\<lambda>value. instanceof_File value \<or>
                      (isArray value \<and> list_ex instanceof_File (array_items value)))
       (map snd (own_entries payloadSource))"

definition json_content_type :: "(string \<times> string) list" where
  "json_content_type = [(''Content-Type'', ''application/json'')]"

text \<open>
  The result is the URL (whose search parameters the function extends in place), the
  body, \<open>None\<close> for \<^verbatim>\<open>undefined\<close>, and the headers; or the exception thrown. The
  test \<^verbatim>\<open>payloadSource instanceof HTMLFormElement\<close> is reached by every truthy payload
  of a method other than GET and DELETE; the branch for a form element is not taken, no
  value being one.
\<close>

definition prepareRequestBodyAndHeaders ::
    "env \<Rightarrow> string \<Rightarrow> url \<Rightarrow> jsval \<Rightarrow> js_error + (url \<times> body option \<times> (string \<times> string) list)" where
  "prepareRequestBodyAndHeaders e method u payloadSource =
     (if \<not> truthy payloadSource then Inr (u, None, [])
      else if method = ''GET'' \<or> method = ''DELETE'' then
        (if typeof_object payloadSource then Inr (append_query (own_entries payloadSource) u, None, [])
         else Inr (u, None, []))
      else
        (case instanceof_HTMLFormElement e payloadSource of
           Some er \<Rightarrow> Inl er
         | None \<Rightarrow>
             if typeof_object payloadSource then
               (if hasFiles payloadSource then
                  Inr (u, Some (BodyFormData (createFormDataFromObject payloadSource)), [])
                else Inr (u, map_option BodyString (JSON_stringify payloadSource), json_content_type))
             else if typeof_string payloadSource then
               Inr (u, Some (BodyString (js_String payloadSource)),
                    if JSON_parse e (js_String payloadSource) \<noteq> None then json_content_type else [])
             else Inr (u, None, [])))"

subsection \<open>\<^verbatim>\<open>session\<close>\<close>

text \<open>
  The object that \<^verbatim>\<open>session\<close> fills from the local storage: its own properties and
  its prototype, at first \<^verbatim>\<open>Object.prototype\<close>, which has no property named
  \<^verbatim>\<open>token\<close> or \<^verbatim>\<open>access_token\<close> and is written \<open>JObj []\<close> here. The assignment
  \<^verbatim>\<open>sessionData[key] = value\<close> makes an own property, except under the key
  \<^verbatim>\<open>__proto__\<close>, where it replaces the prototype when the value is an object or
  \<^verbatim>\<open>null\<close> and does nothing otherwise. Reading a property looks at the own properties,
  then at the prototype.
\<close>

record session_data =
  own_props :: "(string \<times> jsval) list"
  prototype :: jsval

definition parse_or_raw :: "env \<Rightarrow> string \<Rightarrow> jsval" where
  "parse_or_raw e item = (case JSON_parse e item of Some v \<Rightarrow> v | None \<Rightarrow> JStr item)"

definition session_assign :: "string \<Rightarrow> jsval \<Rightarrow> session_data \<Rightarrow> session_data" where
  "session_assign key v sessionData =
     (if key = ''__proto__'' then
        (if typeof_object v then sessionData\<lparr>prototype := v\<rparr> else sessionData)
      else sessionData\<lparr>own_props := AList.update key v (own_props sessionData)\<rparr>)"

text \<open>
  \<^verbatim>\<open>session\<close> is \<^verbatim>\<open>async\<close>: an exception in it is the rejection of its promise,
  and the \<^verbatim>\<open>await\<close> of the generated function throws it.
\<close>

definition session :: "env \<Rightarrow> js_error + session_data" where
  "session e =
     (case localStorage e of
        StorageUndefined \<Rightarrow> Inr \<lparr>own_props = [], prototype = JObj []\<rparr>
      | StorageDenied er \<Rightarrow> Inl er
      | StorageItems items \<Rightarrow>
          Inr (fold (\<lambda>kv sessionData. session_assign (fst kv) (parse_or_raw e (snd kv)) sessionData)
                 items \<lparr>own_props = [], prototype = JObj []\<rparr>))"

definition session_prop :: "session_data \<Rightarrow> string \<Rightarrow> jsval" where
  "session_prop sessionData k =
     (case map_of (own_props sessionData) k of
        Some v \<Rightarrow> v
      | None \<Rightarrow> (case prototype sessionData of JObj kvs \<Rightarrow> lookup kvs k | _ \<Rightarrow> JUndefined))"

subsection \<open>The generated function\<close>

definition bearer_token :: "session_data \<Rightarrow> jsval" where
  "bearer_token sessionData = js_or (session_prop sessionData ''token'') (session_prop sessionData ''access_token'')"

definition inject_token :: "session_data \<Rightarrow> (string \<times> string) list \<Rightarrow> js_error + (string \<times> string) list" where
  "inject_token sessionData requestHeaders =
     (let token = bearer_token sessionData
      in if truthy token \<and> typeof_string token
         then headers_set ''Authorization'' (''Bearer '' @ js_String token) requestHeaders
         else Inr requestHeaders)"

fun set_headers :: "(string \<times> string) list \<Rightarrow> (string \<times> string) list
      \<Rightarrow> js_error + (string \<times> string) list" where
  "set_headers [] h = Inr h"
| "set_headers (nv # rest) h =
     (case headers_set (fst nv) (snd nv) h of
        Inl er \<Rightarrow> Inl er
      | Inr h' \<Rightarrow> set_headers rest h')"

definition merge_headers :: "(string \<times> string) list \<Rightarrow> (string \<times> string) list
      \<Rightarrow> js_error + (string \<times> string) list" where
  "merge_headers defaults requestSpecificHeaders =
     (case new_Headers defaults of
        Inl er \<Rightarrow> Inl er
      | Inr h \<Rightarrow> set_headers requestSpecificHeaders h)"

text \<open>What a call does, in order. \<open>CallbackAwaited\<close> marks the moment the
  \<^verbatim>\<open>await\<close> on the callback's result is over.\<close>

datatype event =
    SessionRead
  | FetchIssued request
  | CallbackInvoked envelope
  | CallbackAwaited
  | ConsoleError string thrown

text \<open>
  From the resolved sources up to the \<^verbatim>\<open>try\<close>: the URL, the body, the headers, the
  session and the token. An exception here rejects the promise of the call; it comes with
  what the call has done until then. Otherwise the result is the URL, the headers and the
  body that the call of \<^verbatim>\<open>fetch\<close> will be given.
\<close>

definition prepare_request :: "sdk \<Rightarrow> env \<Rightarrow> endpoint \<Rightarrow> jsval \<Rightarrow> jsval
      \<Rightarrow> (event list \<times> js_error) + (url \<times> (string \<times> string) list \<times> body option)" where
  "prepare_request this e endpointConfig pathParamsSource payloadSource =
     (case buildUrl e this endpointConfig pathParamsSource of
        Inl er \<Rightarrow> Inl ([], er)
      | Inr u \<Rightarrow>
          (case prepareRequestBodyAndHeaders e (ep_method endpointConfig) u payloadSource of
             Inl er \<Rightarrow> Inl ([], er)
           | Inr (u', body, requestSpecificHeaders) \<Rightarrow>
               (case merge_headers (defaultHeaders this) requestSpecificHeaders of
                  Inl er \<Rightarrow> Inl ([], er)
                | Inr requestHeaders \<Rightarrow>
                    (case session e of
                       Inl er \<Rightarrow> Inl ([SessionRead], er)
                     | Inr sessionData \<Rightarrow>
                         (case inject_token sessionData requestHeaders of
                            Inl er \<Rightarrow> Inl ([SessionRead], er)
                          | Inr requestHeaders' \<Rightarrow> Inr (u', requestHeaders', body))))))"

text \<open>The response normaliser.\<close>

definition read_body :: "http_response \<Rightarrow> jsval" where
  "read_body r =
     (if resp_status r \<noteq> 204 \<and> resp_has_body r then
        (case resp_content_type r of
           None \<Rightarrow> JNull
         | Some contentType \<Rightarrow>
             if str_includes contentType ''application/json'' then
               (case resp_json r of Some v \<Rightarrow> v | None \<Rightarrow> JNull)
             else if str_includes contentType ''text/'' then
               (case resp_text r of Some t \<Rightarrow> JStr t | None \<Rightarrow> JNull)
             else JNull)
      else JNull)"

definition optional_message :: "jsval \<Rightarrow> jsval" where
  "optional_message err =
     (if err = JUndefined \<or> err = JNull then JUndefined
      else case get_prop err ''message'' of Inr m \<Rightarrow> m | Inl _ \<Rightarrow> JUndefined)"

definition normalize_message :: "jsval \<Rightarrow> jsval" where
  "normalize_message responseData =
     (case responseData of
        JObj kvs \<Rightarrow>
          if truthy (optional_message (lookup kvs ''error'')) \<and> lookup kvs ''message'' = JUndefined
          then JObj (AList.update ''message'' (optional_message (lookup kvs ''error'')) kvs)
          else responseData
      | _ \<Rightarrow> responseData)"

definition make_result :: "http_response \<Rightarrow> envelope" where
  "make_result r =
     \<lparr>success = resp_ok r, ok = resp_ok r,
      response = Parsed (normalize_message (read_body r)),
      status = resp_status r\<rparr>"

text \<open>
  The \<^verbatim>\<open>try\<close> block. The arguments of \<^verbatim>\<open>fetch\<close> are evaluated first, the signal
  among them: when \<^verbatim>\<open>AbortSignal.timeout\<close> throws, \<^verbatim>\<open>fetch\<close> is not called. The
  envelope that the block returns is the object that the callback was handed, as the
  callback left it.
\<close>

datatype try_result = Returned envelope | Thrown thrown | Suspended

definition make_request :: "endpoint \<Rightarrow> url \<Rightarrow> (string \<times> string) list \<Rightarrow> body option \<Rightarrow> nat \<Rightarrow> request" where
  "make_request endpointConfig u requestHeaders body ms =
     \<lparr>req_url = href u,
      req_method = ep_method endpointConfig,
      req_headers = requestHeaders,
      req_body = body,
      req_timeout = ms,
      req_credentials = ''include''\<rparr>"

definition after_response :: "sdk \<Rightarrow> request \<Rightarrow> http_response \<Rightarrow> event list \<times> try_result" where
  "after_response this rq httpResponse =
     (let result = make_result httpResponse
      in if status result = 401 then
           (case onInvalidCredential this result of
              CbVoid result' \<Rightarrow> ([FetchIssued rq, CallbackInvoked result, CallbackAwaited], Returned result')
            | CbFulfils result' \<Rightarrow> ([FetchIssued rq, CallbackInvoked result, CallbackAwaited], Returned result')
            | CbThrows er \<Rightarrow> ([FetchIssued rq, CallbackInvoked result], Thrown er)
            | CbRejects er \<Rightarrow> ([FetchIssued rq, CallbackInvoked result, CallbackAwaited], Thrown er)
            | CbNeverSettles \<Rightarrow> ([FetchIssued rq, CallbackInvoked result], Suspended))
         else ([FetchIssued rq], Returned result))"

definition try_block :: "sdk \<Rightarrow> env \<Rightarrow> endpoint \<Rightarrow> url \<Rightarrow> (string \<times> string) list \<Rightarrow> body option
      \<Rightarrow> event list \<times> try_result" where
  "try_block this e endpointConfig u requestHeaders body =
     (case AbortSignal_timeout e (requestTimeout this) of
        Inl er \<Rightarrow> ([], Thrown (ThrownError er))
      | Inr ms \<Rightarrow>
          (let rq = make_request endpointConfig u requestHeaders body ms
           in case platform_fetch e rq of
                FetchRejects er \<Rightarrow> ([FetchIssued rq], Thrown er)
              | FetchResolves httpResponse \<Rightarrow> after_response this rq httpResponse))"

text \<open>
  The \<^verbatim>\<open>catch\<close> block. It logs, then reads \<^verbatim>\<open>error.name\<close>, which throws a TypeError
  when what was caught is \<^verbatim>\<open>null\<close> or \<^verbatim>\<open>undefined\<close>; nothing catches that, and it
  rejects the promise of the call. Otherwise the block returns its envelope, whose message
  is \<^verbatim>\<open>error.message || 'A client-side error occurred.'\<close> unless the name is
  \<^verbatim>\<open>TimeoutError\<close>.
\<close>

definition failure_message :: "thrown \<Rightarrow> js_error + jsval" where
  "failure_message error =
     (case thrown_prop error ''name'' of
        Inl er \<Rightarrow> Inl er
      | Inr name \<Rightarrow>
          if name = JStr ''TimeoutError'' then Inr (JStr ''Request timed out'')
          else (case thrown_prop error ''message'' of
                  Inl er \<Rightarrow> Inl er
                | Inr m \<Rightarrow> Inr (js_or m (JStr ''A client-side error occurred.''))))"

definition failure_envelope :: "jsval \<Rightarrow> thrown \<Rightarrow> envelope" where
  "failure_envelope message error =
     \<lparr>success = False, ok = False,
      response = Failure message error,
      status = 0\<rparr>"

definition error_log :: "string \<Rightarrow> endpoint \<Rightarrow> url \<Rightarrow> string" where
  "error_log debugPath endpointConfig u =
     ''[SDKBuilder] Network/operational error for '' @ debugPath @ '' ('' @
     ep_method endpointConfig @ '' '' @ pathname u @ ''):''"

datatype outcome = Resolves envelope | Rejects thrown | NeverSettles

definition catch_block :: "string \<Rightarrow> endpoint \<Rightarrow> url \<Rightarrow> thrown \<Rightarrow> event list \<times> outcome" where
  "catch_block debugPath endpointConfig u error =
     ([ConsoleError (error_log debugPath endpointConfig u) error],
      (case failure_message error of
         Inl er \<Rightarrow> Rejects (ThrownError er)
       | Inr message \<Rightarrow> Resolves (failure_envelope message error)))"

text \<open>The generated function from the resolved sources on, and as a whole.\<close>

definition run_call :: "sdk \<Rightarrow> env \<Rightarrow> endpoint \<Rightarrow> string \<Rightarrow> jsval \<Rightarrow> jsval \<Rightarrow> event list \<times> outcome" where
  "run_call this e endpointConfig debugPath pathParamsSource payloadSource =
     (case prepare_request this e endpointConfig pathParamsSource payloadSource of
        Inl ee \<Rightarrow> (fst ee, Rejects (ThrownError (snd ee)))
      | Inr (u, requestHeaders, body) \<Rightarrow>
          (case try_block this e endpointConfig u requestHeaders body of
             (events, Returned result) \<Rightarrow> (SessionRead # events, Resolves result)
           | (events, Thrown error) \<Rightarrow>
               (SessionRead # events @ fst (catch_block debugPath endpointConfig u error),
                snd (catch_block debugPath endpointConfig u error))
           | (events, Suspended) \<Rightarrow> (SessionRead # events, NeverSettles)))"

definition fetch_fn :: "sdk \<Rightarrow> env \<Rightarrow> endpoint \<Rightarrow> string \<Rightarrow> jsval \<Rightarrow> jsval \<Rightarrow> event list \<times> outcome" where
  "fetch_fn this e endpointConfig debugPath idOrParamsPayload directPayload =
     (case resolve_args e idOrParamsPayload directPayload of
        Inl er \<Rightarrow> ([], Rejects (ThrownError er))
      | Inr sources \<Rightarrow> run_call this e endpointConfig debugPath (fst sources) (snd sources))"



subsection \<open>The single object argument, by reference\<close>

text \<open>
  The caller's argument is an object the caller keeps. To see what the call does to it,
  objects live in a store, a list of cells addressed by their index, each cell holding
  the entries of one object; allocation adds a cell. This is the branch of the generated
  function for one non-null object argument: the test \<^verbatim>\<open>instanceof HTMLFormElement\<close>
  comes first, the spread allocates the copy, \<^verbatim>\<open>delete\<close> writes to the copy's cell,
  and the stages that follow read the payload from it. A reference is the index of a cell
  of the store; the result is \<open>None\<close> for an index that is none.
\<close>

type_synonym store = "(string \<times> jsval) list list"

definition store_alloc :: "store \<Rightarrow> (string \<times> jsval) list \<Rightarrow> store \<times> nat" where
  "store_alloc h obj = (h @ [obj], length h)"

definition store_delete :: "store \<Rightarrow> nat \<Rightarrow> string \<Rightarrow> store" where
  "store_delete h a key = h[a := AList.delete key (h ! a)]"

definition fetch_fn_ref :: "sdk \<Rightarrow> env \<Rightarrow> endpoint \<Rightarrow> string \<Rightarrow> store \<Rightarrow> nat
      \<Rightarrow> (store \<times> event list \<times> outcome) option" where
  "fetch_fn_ref this e endpointConfig debugPath h idOrParamsPayload =
     (if idOrParamsPayload < length h then
        (case instanceof_HTMLFormElement e (JObj (h ! idOrParamsPayload)) of
           Some er \<Rightarrow> Some (h, [], Rejects (ThrownError er))
         | None \<Rightarrow>
             (case store_alloc h (h ! idOrParamsPayload) of
                (h1, singleArgObject) \<Rightarrow>
                  (let params = lookup (h1 ! singleArgObject) ''$params''
                   in if truthy params \<and> typeof_object params then
                        (case check_params (own_entries params) of
                           Some er \<Rightarrow> Some (h1, [], Rejects (ThrownError er))
                         | None \<Rightarrow>
                             (let h2 = store_delete h1 singleArgObject ''$params''
                              in Some (h2, run_call this e endpointConfig debugPath params
                                             (JObj (h2 ! singleArgObject)))))
                      else Some (h1, run_call this e endpointConfig debugPath JUndefined
                                       (JObj (h1 ! singleArgObject))))))
      else None)"

section \<open>Concrete inputs\<close>

subsection \<open>An example platform\<close>

text \<open>
  The setter of \<^verbatim>\<open>URL.pathname\<close> for a URL of the schemes \<^verbatim>\<open>http\<close> and
  \<^verbatim>\<open>https\<close>, as the URL standard defines it (basic URL parser, from the path start
  state): tabs and newlines are removed; one leading slash or backslash is skipped; the
  rest is cut into segments at slashes and backslashes; a segment \<^verbatim>\<open>..\<close> removes the
  last segment of the path so far, a segment \<^verbatim>\<open>.\<close> adds nothing (both also with
  \<^verbatim>\<open>%2e\<close> for the dot), and any other segment is added with the characters of the path
  percent-encode set escaped (controls, space, \<^verbatim>\<open>" # < > ? ^ ` { }\<close> and everything
  from \<open>0x7F\<close> on). The path is the segments, each after a slash.
\<close>

definition tab_or_newline :: "char \<Rightarrow> bool" where
  "tab_or_newline c = (c = CHR 0x09 \<or> c = CHR 0x0A \<or> c = CHR 0x0D)"

definition in_path_encode_set :: "char \<Rightarrow> bool" where
  "in_path_encode_set c = (let n = (of_char c :: nat) in
     n < 32 \<or> 126 < n \<or>
     c \<in> set [CHR 0x20, CHR 0x22, CHR 0x23, CHR 0x3C, CHR 0x3E, CHR 0x3F, CHR 0x5E, CHR 0x60,
              CHR 0x7B, CHR 0x7D])"

definition single_dot :: "string \<Rightarrow> bool" where
  "single_dot seg = (lower seg = ''.'' \<or> lower seg = ''%2e'')"

definition double_dot :: "string \<Rightarrow> bool" where
  "double_dot seg = (lower seg = ''..'' \<or> lower seg = ''.%2e'' \<or> lower seg = ''%2e.'' \<or>
                     lower seg = ''%2e%2e'')"

definition segment_end :: "string \<Rightarrow> bool \<Rightarrow> string list \<Rightarrow> string list" where
  "segment_end buffer at_slash path =
     (if double_dot buffer then (if at_slash then butlast path else butlast path @ [[]])
      else if single_dot buffer then (if at_slash then path else path @ [[]])
      else path @ [buffer])"

fun path_state :: "string \<Rightarrow> string list \<Rightarrow> string \<Rightarrow> string list" where
  "path_state [] path buffer = segment_end buffer False path"
| "path_state (c # cs) path buffer =
     (if c = CHR ''/'' \<or> c = CHR 0x5C then path_state cs (segment_end buffer True path) []
      else path_state cs path (buffer @ (if in_path_encode_set c then percent_encode c else [c])))"

definition special_pathname :: "string \<Rightarrow> string" where
  "special_pathname v =
     (let input = filter (\<lambda>c. \<not> tab_or_newline c) v;
          rest = (case input of
                    [] \<Rightarrow> []
                  | c # cs \<Rightarrow> if c = CHR ''/'' \<or> c = CHR 0x5C then cs else input)
      in concat (map (\<lambda>seg. CHR ''/'' # seg) (path_state rest [] [])))"

text \<open>
  What a global regular expression made from a text without metacharacters does: it
  replaces each occurrence of the text, from left to right.
\<close>

function replace_all :: "string \<Rightarrow> string \<Rightarrow> string \<Rightarrow> string" where
  "replace_all [] pat rep = []"
| "replace_all (c # cs) pat rep =
     (if pat \<noteq> [] \<and> prefix pat (c # cs) then rep @ replace_all (drop (length pat) (c # cs)) pat rep
      else c # replace_all cs pat rep)"
  by pat_completeness auto
termination
  by (relation "measure (\<lambda>(s, pat, rep). length s)") auto

text \<open>
  \<^verbatim>\<open>AbortSignal.timeout\<close> on the values the examples pass to it: for a natural number
  up to \<open>2^53 - 1\<close> the signal of that many milliseconds, and a TypeError (with the
  message of Chrome) for a negative integer.
\<close>

definition is_digit :: "char \<Rightarrow> bool" where
  "is_digit c = (let n = (of_char c :: nat) in 48 \<le> n \<and> n \<le> 57)"

definition decimal_value :: "string \<Rightarrow> nat" where
  "decimal_value t = foldl (\<lambda>n c. 10 * n + (of_char c - 48)) 0 t"

definition out_of_range :: js_error where
  "out_of_range =
     TypeError (''Failed to execute '' @ [CHR 0x27] @ ''timeout'' @ [CHR 0x27] @ '' on '' @
                [CHR 0x27] @ ''AbortSignal'' @ [CHR 0x27] @ '': Value is outside the '' @
                [CHR 0x27] @ ''unsigned long long'' @ [CHR 0x27] @ '' value range.'')"

definition example_signal :: "jsval \<Rightarrow> js_error + nat" where
  "example_signal v =
     (case v of
        JNum t \<Rightarrow>
          if t \<noteq> [] \<and> list_all is_digit t \<and> decimal_value t \<le> 9007199254740991
          then Inr (decimal_value t) else Inl out_of_range
      | _ \<Rightarrow> Inl out_of_range)"

text \<open>
  A browser without session storage whose network answers every request at once with a
  plain 200, and the same platform without the global \<^verbatim>\<open>HTMLFormElement\<close>, as Node is.
\<close>

definition ok_response :: http_response where
  "ok_response =
     \<lparr>resp_status = 200, resp_ok = True, resp_content_type = None, resp_has_body = False,
      resp_json = None, resp_text = None\<rparr>"

definition at_once :: "fetch_result \<Rightarrow> request \<Rightarrow> network_reply" where
  "at_once fr = (\<lambda>_. \<lparr>latency = Some 0, reply = fr, body_latency = Some 0\<rparr>)"

definition example_env :: env where
  "example_env =
     \<lparr>has_HTMLFormElement = True,
      localStorage = StorageUndefined,
      URL_pathname = (\<lambda>_. special_pathname),
      AbortSignal_timeout = example_signal,
      network = at_once (FetchResolves ok_response),
      timeout_text = ''The operation timed out.'',
      JSON_parse = (\<lambda>_. None),
      RegExp_replace_all = (\<lambda>pat s rep. Inr (replace_all s pat rep))\<rparr>"


subsection \<open>Clients, endpoints and arguments\<close>


text \<open>An endpoint tree with one branch that is \<^verbatim>\<open>null\<close> and one valid leaf.\<close>

definition null_branch_endpoints :: jsval where
  "null_branch_endpoints =
     JObj [(''broken'', JNull),
           (''ok'', JObj [(''path'', JStr ''/x''), (''method'', JStr ''GET'')])]"

definition null_branch_config :: config where
  "null_branch_config =
     \<lparr>cfg_base = Some ''http://h/api'', cfg_endpoints = null_branch_endpoints,
      cfg_onInvalidCredential = None, cfg_defaultHeaders = None, cfg_requestTimeout = JUndefined\<rparr>"

text \<open>A payload whose only file sits in a nested object.\<close>

definition nested_file_payload :: jsval where
  "nested_file_payload = JObj [(''profile'', JObj [(''avatar'', JFile ''a.png'')])]"

text \<open>A client on the base \<^verbatim>\<open>http://h/api\<close> with the defaults of the constructor.\<close>

definition example_base :: url where
  "example_base = \<lparr>origin = ''http://h'', pathname = ''/api'', search = [], searchParams = [],
                   hash = []\<rparr>"

definition example_sdk :: sdk where
  "example_sdk =
     \<lparr>baseUrl = example_base,
      onInvalidCredential = CbFulfils,
      defaultHeaders = [(''Accept'', ''application/json'')],
      requestTimeout = JNum ''30000''\<rparr>"

definition user_by_id :: endpoint where
  "user_by_id = \<lparr>ep_path = ''/users/:id'', ep_method = ''GET''\<rparr>"


definition member_of_org :: endpoint where
  "member_of_org = \<lparr>ep_path = ''orgs/:org/users/:id'', ep_method = ''GET''\<rparr>"

definition double_slash :: endpoint where
  "double_slash = \<lparr>ep_path = ''//users'', ep_method = ''GET''\<rparr>"

text \<open>
  Two single arguments with \<^verbatim>\<open>$params\<close>: scalar values, and an array as a value. The
  store holds the first as the caller's object.
\<close>

definition scalar_bag :: "(string \<times> jsval) list" where
  "scalar_bag = [(''$params'', JObj [(''id'', JNum ''2'')]), (''name'', JStr ''x'')]"


definition caller_store :: store where
  "caller_store = [scalar_bag]"

section \<open>Observations of a call\<close>

text \<open>
  What a call has ready when it enters the \<^verbatim>\<open>try\<close> block (the URL, the headers and
  the body), the request it hands to \<^verbatim>\<open>fetch\<close>, if it gets that far, the answer of
  \<^verbatim>\<open>fetch\<close> to it, and the envelopes the credential callback was invoked with, in
  order.
\<close>

definition fetch_arguments :: "sdk \<Rightarrow> env \<Rightarrow> endpoint \<Rightarrow> jsval \<Rightarrow> jsval
      \<Rightarrow> (url \<times> (string \<times> string) list \<times> body option) option" where
  "fetch_arguments this e ep a b =
     (case resolve_args e a b of
        Inl _ \<Rightarrow> None
      | Inr sources \<Rightarrow>
          (case prepare_request this e ep (fst sources) (snd sources) of
             Inl _ \<Rightarrow> None
           | Inr args \<Rightarrow> Some args))"

definition issued_request :: "sdk \<Rightarrow> env \<Rightarrow> endpoint \<Rightarrow> jsval \<Rightarrow> jsval \<Rightarrow> request option" where
  "issued_request this e ep a b =
     (case fetch_arguments this e ep a b of
        None \<Rightarrow> None
      | Some (u, requestHeaders, body) \<Rightarrow>
          (case AbortSignal_timeout e (requestTimeout this) of
             Inl _ \<Rightarrow> None
           | Inr ms \<Rightarrow> Some (make_request ep u requestHeaders body ms)))"

definition http_reply :: "sdk \<Rightarrow> env \<Rightarrow> endpoint \<Rightarrow> jsval \<Rightarrow> jsval \<Rightarrow> fetch_result option" where
  "http_reply this e ep a b = map_option (platform_fetch e) (issued_request this e ep a b)"

fun callback_invocations :: "event list \<Rightarrow> envelope list" where
  "callback_invocations [] = []"
| "callback_invocations (CallbackInvoked result # evs) = result # callback_invocations evs"
| "callback_invocations (_ # evs) = callback_invocations evs"



text \<open>
  A network that answers 401 to everything, and clients whose credential callback throws
  an error, returns a promise that is rejected with it, returns a promise that is rejected
  with \<^verbatim>\<open>undefined\<close>, or sets the status of the envelope it is handed to 200.
\<close>

definition unauthorized_response :: http_response where
  "unauthorized_response =
     \<lparr>resp_status = 401, resp_ok = False, resp_content_type = None, resp_has_body = False,
      resp_json = None, resp_text = None\<rparr>"

definition unauthorized_env :: env where
  "unauthorized_env = example_env\<lparr>network := at_once (FetchResolves unauthorized_response)\<rparr>"

definition redirect_failed :: thrown where
  "redirect_failed = ThrownError (Error ''redirect failed'')"

definition throwing_sdk :: sdk where
  "throwing_sdk = example_sdk\<lparr>onInvalidCredential := (\<lambda>_. CbThrows redirect_failed)\<rparr>"



definition overwriting_sdk :: sdk where
  "overwriting_sdk = example_sdk\<lparr>onInvalidCredential := (\<lambda>result. CbVoid (result\<lparr>status := 200\<rparr>))\<rparr>"






















section \<open>Well-formed endpoint trees\<close>

text \<open>
  A leaf has a string \<^verbatim>\<open>path\<close> and a string \<^verbatim>\<open>method\<close>; a tree is well formed when
  its keys are distinct, none of them names a member that objects inherit, and each value
  is a leaf or an object that is a well-formed tree. \<open>mirror\<close> is the client such a tree
  stands for: the same keys in the same nesting, a function for each leaf and an object
  for each group.
\<close>

definition is_leaf :: "jsval \<Rightarrow> bool" where
  "is_leaf v = (case v of
      JObj kvs \<Rightarrow> typeof_string (lookup kvs ''path'') \<and> typeof_string (lookup kvs ''method'')
    | _ \<Rightarrow> False)"

fun is_plain :: "jsval \<Rightarrow> bool" where
  "is_plain (JObj _) = True"
| "is_plain _ = False"

function valid_tree :: "(string \<times> jsval) list \<Rightarrow> bool" where
  "valid_tree [] = True"
| "valid_tree (kv # rest) =
     (fst kv \<notin> fst ` set rest \<and> fst kv \<notin> set inherited_members \<and>
      (is_leaf (snd kv) \<or> (is_plain (snd kv) \<and> valid_tree (own_entries (snd kv)))) \<and>
      valid_tree rest)"
  by pat_completeness auto
termination
proof (relation "measure jsize_fields")
  show "wf (measure jsize_fields)" by simp
qed (use jsize_own_entries in \<open>auto simp: less_Suc_eq_le intro: le_trans trans_le_add1\<close>)

function mirror :: "string \<Rightarrow> (string \<times> jsval) list \<Rightarrow> (string \<times> client) list" where
  "mirror parentKeyPath [] = []"
| "mirror parentKeyPath (kv # rest) =
     (fst kv,
      if is_leaf (snd kv) then Node (Some (endpoint_of (snd kv), key_path parentKeyPath (fst kv))) []
      else Node None (mirror (key_path parentKeyPath (fst kv)) (own_entries (snd kv))))
     # mirror parentKeyPath rest"
  by pat_completeness auto
termination
proof (relation "measure (\<lambda>(_, entries). jsize_fields entries)")
  show "wf (measure (\<lambda>(_, entries). jsize_fields entries))" by simp
qed (use jsize_own_entries in \<open>auto simp: less_Suc_eq_le intro: le_trans trans_le_add1\<close>)

text \<open>The URL of a call after the first assignment to its path, of the joined path.\<close>

definition joined_url :: "env \<Rightarrow> sdk \<Rightarrow> endpoint \<Rightarrow> url" where
  "joined_url e this ep =
     set_pathname e (join_paths (pathname (baseUrl this)) (ep_path ep)) (baseUrl this)"





section \<open>The payload encoder and files\<close>

text \<open>
  What the scan sees: a file among the top-level values, or among the items of a top-level
  array. Then, where the platform defines \<^verbatim>\<open>HTMLFormElement\<close>, the body is the form
  data; otherwise it is the JSON text of the payload, with the JSON content type.
\<close>

lemma hasFiles_iff:
  "hasFiles (JObj kvs) \<longleftrightarrow>
     (\<exists>kv\<in>set kvs. (\<exists>f. snd kv = JFile f) \<or> (\<exists>items f. snd kv = JArr items \<and> JFile f \<in> set items))"
proof -
  have seen: "instanceof_File v \<or> (isArray v \<and> list_ex instanceof_File (array_items v)) \<longleftrightarrow>
      (\<exists>f. v = JFile f) \<or> (\<exists>items f. v = JArr items \<and> JFile f \<in> set items)" for v
  proof (cases v)
    case (JArr items)
    have "list_ex instanceof_File items \<longleftrightarrow> (\<exists>f. JFile f \<in> set items)"
    proof (induction items)
      case Nil
      then show ?case by simp
    next
      case (Cons x xs)
      then show ?case by (cases x) auto
    qed
    with JArr show ?thesis by simp
  qed simp_all
  have "hasFiles (JObj kvs) \<longleftrightarrow>
      (\<exists>kv\<in>set kvs. instanceof_File (snd kv) \<or>
         (isArray (snd kv) \<and> list_ex instanceof_File (array_items (snd kv))))"
    by (simp add: hasFiles_def list_ex_iff)
  then show ?thesis by (simp only: seen)
qed

lemma seen_file_is_multipart:
  assumes "has_HTMLFormElement e" and "method \<noteq> ''GET''" and "method \<noteq> ''DELETE''"
    and "hasFiles (JObj kvs)"
  shows "prepareRequestBodyAndHeaders e method u (JObj kvs) =
     Inr (u, Some (BodyFormData (createFormDataFromObject (JObj kvs))), [])"
  using assms by (simp add: prepareRequestBodyAndHeaders_def instanceof_HTMLFormElement_def)

lemma no_seen_file_is_json:
  assumes "has_HTMLFormElement e" and "method \<noteq> ''GET''" and "method \<noteq> ''DELETE''"
    and "\<not> hasFiles (JObj kvs)"
  shows "prepareRequestBodyAndHeaders e method u (JObj kvs) =
     Inr (u, map_option BodyString (JSON_stringify (JObj kvs)), [(''Content-Type'', ''application/json'')])
     \<and> JSON_stringify (JObj kvs) \<noteq> None"
  using assms
  by (simp add: prepareRequestBodyAndHeaders_def json_content_type_def instanceof_HTMLFormElement_def)

text \<open>
  C3. A POST/PUT/PATCH payload with a file anywhere, also in a nested object at any depth,
  should be encoded as multipart form data and never as JSON. The scan that decides it,
  \<open>hasFiles\<close>, looks at the top-level values and at the items of top-level arrays
  only, although the form-data builder would place a nested file under its bracketed key.
  For the payload \<^verbatim>\<open>{ profile: { avatar: File } }\<close> the body is the JSON text
  \<^verbatim>\<open>{"profile":{"avatar":{}}}\<close> with \<^verbatim>\<open>Content-Type: application/json\<close>, and the
  builder, had it been called, would have produced the entry \<^verbatim>\<open>profile[avatar]\<close>.
  That is what happens on every platform that defines \<^verbatim>\<open>HTMLFormElement\<close>, whatever
  the URL; on a platform that does not, the encoder throws a ReferenceError, and the
  payload is not sent as multipart form data either.
\<close>

theorem nested_file_sent_as_json:
  "prepareRequestBodyAndHeaders e ''POST'' u nested_file_payload =
     (if has_HTMLFormElement e
      then Inr (u, Some (BodyString (''{'' @ [CHR 0x22] @ ''profile'' @ [CHR 0x22] @ '':{'' @
                                     [CHR 0x22] @ ''avatar'' @ [CHR 0x22] @ '':{}}}'')),
                [(''Content-Type'', ''application/json'')])
      else Inl (ReferenceError ''HTMLFormElement is not defined''))
   \<and> createFormDataFromObject nested_file_payload = [(''profile[avatar]'', FormFile ''a.png'')]"
  by (simp add: prepareRequestBodyAndHeaders_def hasFiles_def json_content_type_def
      nested_file_payload_def createFormDataFromObject_def child_key_def form_value_def
      json_quote_def json_escape_def instanceof_HTMLFormElement_def)

section \<open>The endpoint tree walker\<close>

lemma classify_leaf: "is_leaf v \<Longrightarrow> classify v = Inr Leaf"
  by (cases v) (auto simp: is_leaf_def classify_def isActualEndpointConfig_def lookup_def)

lemma classify_group: "is_plain v \<Longrightarrow> \<not> is_leaf v \<Longrightarrow> classify v = Inr Group"
  by (cases v) (auto simp: is_leaf_def classify_def isActualEndpointConfig_def lookup_def)

lemma update_fresh_key: "k \<notin> fst ` set al \<Longrightarrow> AList.update k v al = al @ [(k, v)]"
  by (induction al) auto

lemma branch_fresh: "k \<notin> fst ` set branch \<Longrightarrow> branch_or_fresh branch k = Node None []"
proof -
  assume "k \<notin> fst ` set branch"
  then have "map_of branch k = None" by (simp add: map_of_eq_None_iff)
  then show ?thesis by (simp add: branch_or_fresh_def)
qed

lemma mirror_keys: "map fst (mirror p entries) = map fst entries"
  by (induction entries) auto

text \<open>
  On a well-formed tree the walk fills the target with the mirror of the tree, throws
  nothing and warns of nothing.
\<close>

lemma init_entries_mirror:
  "valid_tree entries \<Longrightarrow> fst ` set entries \<inter> fst ` set branch = {} \<Longrightarrow>
   init_entries entries branch parentKeyPath warns = Inr (branch @ mirror parentKeyPath entries, warns)"
proof (induction entries branch parentKeyPath warns rule: init_entries.induct)
  case (1 branch parentKeyPath warns)
  then show ?case by simp
next
  case (2 kv rest branch parentKeyPath warns)
  from "2.prems" have fresh: "fst kv \<notin> fst ` set branch" and new: "fst kv \<notin> fst ` set rest"
    and rest: "valid_tree rest" and disj: "fst ` set rest \<inter> fst ` set branch = {}"
    by auto
  show ?case
  proof (cases "is_leaf (snd kv)")
    case True
    then have c: "classify (snd kv) = Inr Leaf" by (rule classify_leaf)
    have b: "leaf_result (fst kv) (snd kv) branch (key_path parentKeyPath (fst kv)) =
        branch @ [(fst kv, Node (Some (endpoint_of (snd kv), key_path parentKeyPath (fst kv))) [])]"
      using fresh by (simp add: leaf_result_def update_fresh_key)
    have "fst ` set rest \<inter> fst ` set (leaf_result (fst kv) (snd kv) branch (key_path parentKeyPath (fst kv))) = {}"
      unfolding b using disj new by auto
    from "2.IH"(1)[OF c refl rest this] show ?thesis
      using c True by (simp add: b)
  next
    case False
    with "2.prems" have plain: "is_plain (snd kv)" and sub: "valid_tree (own_entries (snd kv))"
      by auto
    from plain False have c: "classify (snd kv) = Inr Group" by (rule classify_group)
    have props: "node_props (branch_or_fresh branch (fst kv)) = []"
      using fresh by (simp add: branch_fresh)
    have inner: "init_entries (own_entries (snd kv)) (node_props (branch_or_fresh branch (fst kv)))
        (key_path parentKeyPath (fst kv)) warns =
        Inr (mirror (key_path parentKeyPath (fst kv)) (own_entries (snd kv)), warns)"
      using "2.IH"(2)[OF c refl sub] by (simp add: props)
    have b: "AList.update (fst kv)
        (node_with_props (branch_or_fresh branch (fst kv))
           (mirror (key_path parentKeyPath (fst kv)) (own_entries (snd kv)))) branch =
        branch @ [(fst kv, Node None (mirror (key_path parentKeyPath (fst kv)) (own_entries (snd kv))))]"
      using fresh by (simp add: branch_fresh update_fresh_key)
    have "fst ` set rest \<inter> fst ` set (AList.update (fst kv)
        (node_with_props (branch_or_fresh branch (fst kv))
           (fst (mirror (key_path parentKeyPath (fst kv)) (own_entries (snd kv)), warns))) branch) = {}"
      using disj new by (simp add: b)
    from "2.IH"(3)[OF c refl inner rest this] show ?thesis
      using c False inner by (simp add: b)
  qed
qed

text \<open>
  So the constructor's walk of a well-formed tree gives a client with the keys of the tree
  at every level, and a value that is a string, a number or a boolean is left out with a
  warning while the walk goes on.
\<close>

lemma initializeEndpoints_mirror:
  "valid_tree entries \<Longrightarrow>
   initializeEndpoints (JObj entries) [] [] [] = Inr (mirror [] entries, [])"
  using init_entries_mirror[of entries "[]" "[]" "[]"] by (simp add: initializeEndpoints_def)

lemma scalar_node_skipped:
  assumes "v = JStr s \<or> v = JNum n \<or> v = JBool f"
  shows "init_entries ((k, v) # rest) branch parentKeyPath warns =
     init_entries rest branch parentKeyPath (warns @ [invalid_warning (key_path parentKeyPath k)])"
  using assms by (auto simp: classify_def isActualEndpointConfig_def)

text \<open>
  C4. The client mirrors a well-formed tree, and a node that is neither a leaf nor an
  object should be skipped with a warning while construction goes on. That is so for a
  string, a number or a boolean. For a node that is \<^verbatim>\<open>null\<close> the leaf test reads
  \<^verbatim>\<open>config.path\<close> before the guard \<^verbatim>\<open>configValue !== null\<close> is reached, and the
  constructor ends with a TypeError: no client is built, the valid leaf next to it
  included.
\<close>

theorem null_branch_aborts_construction:
  "constructor null_branch_config =
     Inl (TypeError (''Cannot read properties of null (reading '' @ [CHR 0x27] @ ''path'' @ [CHR 0x27] @ '')''))"
  by (simp add: constructor_def null_branch_config_def URL_parse_def initializeEndpoints_def
      null_branch_endpoints_def classify_def isActualEndpointConfig_def)

section \<open>The URL builder\<close>

lemma strip_trailing_stem: "b = [] \<or> last b \<noteq> CHR ''/'' \<Longrightarrow> strip_trailing_slash b = b"
  by (auto simp: strip_trailing_slash_def)

lemma strip_trailing_slashed: "strip_trailing_slash (b @ ''/'') = b"
  by (simp add: strip_trailing_slash_def)

lemma strip_leading_stem: "t = [] \<or> hd t \<noteq> CHR ''/'' \<Longrightarrow> strip_leading_slash t = t"
  by (cases t) (auto simp: strip_leading_slash_def)

lemma strip_leading_slashed: "strip_leading_slash (''/'' @ t) = t"
  by (simp add: strip_leading_slash_def)

text \<open>
  Whether or not the base path ends with a slash and the template begins with one, the
  joined path has the one slash between them.
\<close>

lemma join_paths_one_slash:
  assumes "b = [] \<or> last b \<noteq> CHR ''/''" and "t = [] \<or> hd t \<noteq> CHR ''/''"
    and "bp \<in> {b, b @ ''/''}" and "tp \<in> {t, ''/'' @ t}"
  shows "join_paths bp tp = b @ ''/'' @ t"
proof -
  have "strip_trailing_slash bp = b"
    using assms(1,3) strip_trailing_stem[of b] strip_trailing_slashed[of b] by auto
  moreover have "strip_leading_slash tp = t"
    using assms(2,4) strip_leading_stem[of t] strip_leading_slashed[of t] by auto
  ultimately show ?thesis by (simp add: join_paths_def)
qed

lemma colon_not_word: "\<not> is_word CHR '':''"
  by (simp add: is_word_def)

lemma takeWhile_word_name:
  assumes "\<forall>c\<in>set name. is_word c" and "rest = [] \<or> \<not> is_word (hd rest)"
  shows "takeWhile is_word (name @ rest) = name"
proof -
  have "takeWhile is_word rest = []" using assms(2) by (cases rest) auto
  then show ?thesis using assms(1) by (simp add: takeWhile_append2)
qed

text \<open>The leftmost placeholder is the one matched, whatever its name.\<close>

lemma match_placeholder_first:
  assumes "match_placeholder pre = None" and "name \<noteq> []" and "\<forall>c\<in>set name. is_word c"
    and "rest = [] \<or> \<not> is_word (hd rest)"
  shows "match_placeholder (pre @ '':'' @ name @ rest) = Some ('':'' @ name)"
  using assms(1)
proof (induction pre)
  case Nil
  then show ?case using takeWhile_word_name[OF assms(3,4)] assms(2) by simp
next
  case (Cons c cs)
  from Cons.prems have nomatch: "\<not> (c = CHR '':'' \<and> takeWhile is_word cs \<noteq> [])"
    and tl: "match_placeholder cs = None"
    by (auto split: if_splits)
  have "c = CHR '':'' \<Longrightarrow> takeWhile is_word (cs @ '':'' @ name @ rest) = []"
  proof -
    assume "c = CHR '':''"
    with nomatch have "takeWhile is_word cs = []" by simp
    then show ?thesis using colon_not_word by (cases cs) (auto split: if_splits)
  qed
  then show ?case using Cons.IH[OF tl] by auto
qed

text \<open>Its first occurrence as a text is where it was matched, and only that one is replaced.\<close>

lemma replace_first_at:
  assumes "match_placeholder pre = None" and "name \<noteq> []" and "\<forall>c\<in>set name. is_word c"
  shows "replace_first (pre @ '':'' @ name @ rest) ('':'' @ name) rep = pre @ rep @ rest"
  using assms(1)
proof (induction pre)
  case Nil
  then show ?case by simp
next
  case (Cons c cs)
  from Cons.prems have nomatch: "\<not> (c = CHR '':'' \<and> takeWhile is_word cs \<noteq> [])"
    and tl: "match_placeholder cs = None"
    by (auto split: if_splits)
  obtain n ns where name: "name = n # ns" and wn: "is_word n"
    using assms(2,3) by (cases name) auto
  have "\<not> prefix ('':'' @ name) (c # cs @ '':'' @ name @ rest)"
  proof
    assume p: "prefix ('':'' @ name) (c # cs @ '':'' @ name @ rest)"
    then have c: "c = CHR '':''" by simp
    with nomatch have tw: "takeWhile is_word cs = []" by simp
    from p c have "prefix (n # ns) (cs @ '':'' @ name @ rest)" by (simp add: name)
    then show False using tw wn colon_not_word by (cases cs) (auto split: if_splits)
  qed
  then show ?case using Cons.IH[OF tl] by (simp del: prefix_code Cons_prefix_Cons)
qed

lemma substitute_scalar_first:
  assumes "match_placeholder pre = None" and "name \<noteq> []" and "\<forall>c\<in>set name. is_word c"
    and "rest = [] \<or> \<not> is_word (hd rest)"
  shows "substitute_scalar v (pre @ '':'' @ name @ rest) = pre @ encodeURIComponent (js_String v) @ rest"
  by (simp only: substitute_scalar_def match_placeholder_first[OF assms] option.case
      replace_first_at[OF assms(1-3)])

lemma encode_two: "encodeURIComponent ''2'' = ''2''"
  by code_simp

text \<open>The standard's path setter on the paths of the examples.\<close>

lemma special_pathname_examples:
  "special_pathname ''/api/users/:id'' = ''/api/users/:id''"
  "special_pathname ''/api/users/2'' = ''/api/users/2''"
  "special_pathname ''/api/orgs/:org/users/:id'' = ''/api/orgs/:org/users/:id''"
  "special_pathname ''/api/orgs/2/users/:id'' = ''/api/orgs/2/users/:id''"
  "special_pathname ''/api/users/a%20b'' = ''/api/users/a%20b''"
  "special_pathname ''/api//users'' = ''/api//users''"
  "special_pathname ''/api/users/..'' = ''/api/''"
  by code_simp+

text \<open>
  C6, as the code has it. The URL builder assigns to the path of the URL the base path
  without one trailing slash, a slash, and the path template without one leading slash;
  when the base path ends with at most one slash and the template begins with at most one,
  there is exactly one slash between them. The assignment parses that text again, and what
  it makes of it is the path the builder goes on with. A scalar (string or number) source
  of path parameters replaces the first placeholder \<^verbatim>\<open>:name\<close> of that path, whatever
  its name, by \<^verbatim>\<open>encodeURIComponent(String(v))\<close>, and nothing else: what stands before
  it (\<open>pre\<close>, with no placeholder in it) and after it (\<open>rest\<close>) stays. The result is
  assigned to the path of the URL, which parses it again. With the base
  \<^verbatim>\<open>http://h/api\<close>, the path \<^verbatim>\<open>/users/:id\<close> and the scalar 2, on a platform whose
  setter follows the URL standard for the URLs of that origin, the URL is
  \<^verbatim>\<open>http://h/api/users/2\<close>.
\<close>

theorem buildUrl_join_and_scalar:
  "((b = [] \<or> last b \<noteq> CHR ''/'') \<and> (t = [] \<or> hd t \<noteq> CHR ''/'') \<and>
      pathname (baseUrl this) \<in> {b, b @ ''/''} \<and> ep_path ep \<in> {t, ''/'' @ t}
      \<longrightarrow> joined_url e this ep = set_pathname e (b @ ''/'' @ t) (baseUrl this))
   \<and> joined_url e this ep =
       set_pathname e (strip_trailing_slash (pathname (baseUrl this)) @ ''/'' @
                       strip_leading_slash (ep_path ep)) (baseUrl this)
   \<and> buildUrl e this ep JUndefined =
       Inr (set_pathname e (pathname (joined_url e this ep)) (joined_url e this ep))
   \<and> ((typeof_string v \<or> typeof_number v) \<and>
       pathname (joined_url e this ep) = pre @ '':'' @ name @ rest \<and>
       match_placeholder pre = None \<and> name \<noteq> [] \<and> (\<forall>c\<in>set name. is_word c) \<and>
       (rest = [] \<or> \<not> is_word (hd rest))
      \<longrightarrow> buildUrl e this ep v =
            Inr (set_pathname e (pre @ encodeURIComponent (js_String v) @ rest) (joined_url e this ep)))
   \<and> URL_parse ''http://h/api'' =
       Inr \<lparr>origin = ''http://h'', pathname = ''/api'', search = [], searchParams = [], hash = []\<rparr>
   \<and> (baseUrl this = \<lparr>origin = ''http://h'', pathname = ''/api'', search = [], searchParams = [],
                       hash = []\<rparr> \<and>
       ep_path ep = ''/users/:id'' \<and>
       (\<forall>u p. origin u = ''http://h'' \<longrightarrow> URL_pathname e u p = special_pathname p)
      \<longrightarrow> resolve_args e (JNum ''2'') JUndefined = Inr (JNum ''2'', JUndefined) \<and>
          map_sum id href (buildUrl e this ep (JNum ''2'')) = Inr ''http://h/api/users/2'')"
proof (intro conjI impI)
  assume h: "(b = [] \<or> last b \<noteq> CHR ''/'') \<and> (t = [] \<or> hd t \<noteq> CHR ''/'') \<and>
      pathname (baseUrl this) \<in> {b, b @ ''/''} \<and> ep_path ep \<in> {t, ''/'' @ t}"
  then have "join_paths (pathname (baseUrl this)) (ep_path ep) = b @ ''/'' @ t"
    using join_paths_one_slash[of b t "pathname (baseUrl this)" "ep_path ep"] by blast
  then show "joined_url e this ep = set_pathname e (b @ ''/'' @ t) (baseUrl this)"
    by (simp add: joined_url_def)
next
  show "joined_url e this ep =
       set_pathname e (strip_trailing_slash (pathname (baseUrl this)) @ ''/'' @
                       strip_leading_slash (ep_path ep)) (baseUrl this)"
    by (simp add: joined_url_def join_paths_def)
next
  show "buildUrl e this ep JUndefined =
       Inr (set_pathname e (pathname (joined_url e this ep)) (joined_url e this ep))"
    by (simp add: buildUrl_def joined_url_def Let_def)
next
  assume h: "(typeof_string v \<or> typeof_number v) \<and>
       pathname (joined_url e this ep) = pre @ '':'' @ name @ rest \<and>
       match_placeholder pre = None \<and> name \<noteq> [] \<and> (\<forall>c\<in>set name. is_word c) \<and>
       (rest = [] \<or> \<not> is_word (hd rest))"
  then have sub: "substitute_scalar v (pre @ '':'' @ name @ rest) =
      pre @ encodeURIComponent (js_String v) @ rest"
    using substitute_scalar_first[of pre name rest v] by blast
  from h have "v \<noteq> JUndefined" "v \<noteq> JNull" by auto
  moreover from h have "pathname (set_pathname e (join_paths (pathname (baseUrl this)) (ep_path ep))
      (baseUrl this)) = pre @ '':'' @ name @ rest"
    by (simp add: joined_url_def)
  ultimately show "buildUrl e this ep v =
      Inr (set_pathname e (pre @ encodeURIComponent (js_String v) @ rest) (joined_url e this ep))"
    using h sub by (simp add: buildUrl_def joined_url_def Let_def)
next
  show "URL_parse ''http://h/api'' =
       Inr \<lparr>origin = ''http://h'', pathname = ''/api'', search = [], searchParams = [], hash = []\<rparr>"
    by (simp add: URL_parse_def)
next
  show "resolve_args e (JNum ''2'') JUndefined = Inr (JNum ''2'', JUndefined)"
    by (simp add: resolve_args_def)
next
  assume h: "baseUrl this = \<lparr>origin = ''http://h'', pathname = ''/api'', search = [], searchParams = [],
                       hash = []\<rparr> \<and>
       ep_path ep = ''/users/:id'' \<and>
       (\<forall>u p. origin u = ''http://h'' \<longrightarrow> URL_pathname e u p = special_pathname p)"
  then have setter: "set_pathname e p u = u\<lparr>pathname := special_pathname p\<rparr>"
    if "origin u = ''http://h''" for u p
    using that by (simp add: set_pathname_def)
  have w: "\<forall>c\<in>set ''id''. is_word c" "\<not> is_word CHR ''/''"
    by (simp_all add: is_word_def)
  have "substitute_scalar (JNum ''2'') (''/api/users/'' @ '':'' @ ''id'' @ []) =
      ''/api/users/'' @ encodeURIComponent (js_String (JNum ''2'')) @ []"
    by (rule substitute_scalar_first) (simp_all add: w is_word_def)
  then have sub: "substitute_scalar (JNum ''2'') ''/api/users/:id'' = ''/api/users/2''"
    by (simp add: encode_two)
  from h show "map_sum id href (buildUrl e this ep (JNum ''2'')) = Inr ''http://h/api/users/2''"
    by (simp add: buildUrl_def Let_def join_paths_def strip_trailing_slash_def
        strip_leading_slash_def setter special_pathname_examples sub href_def)
qed

theorem buildUrl_join_and_scalar_witness:
  "pathname (baseUrl example_sdk) = ''/api'' \<and> ep_path user_by_id = ''/users/:id''
   \<and> joined_url example_env example_sdk user_by_id = example_base\<lparr>pathname := ''/api/users/:id''\<rparr>
   \<and> match_placeholder ''/api/users/'' = None
   \<and> buildUrl example_env example_sdk user_by_id (JStr ''a b'') =
       Inr (example_base\<lparr>pathname := ''/api/users/a%20b''\<rparr>)
   \<and> ep_path member_of_org = ''orgs/:org/users/:id'' \<and> match_placeholder ''/api/orgs/'' = None
   \<and> buildUrl example_env example_sdk member_of_org (JNum ''2'') =
       Inr (example_base\<lparr>pathname := ''/api/orgs/2/users/:id''\<rparr>)
   \<and> map_sum id href (buildUrl example_env example_sdk user_by_id (JNum ''2'')) =
       Inr ''http://h/api/users/2''"
proof -
  have enc: "encodeURIComponent ''a b'' = ''a%20b''" by code_simp
  have w: "\<forall>c\<in>set ''id''. is_word c" "\<forall>c\<in>set ''org''. is_word c" "\<not> is_word CHR ''/''"
    by (simp_all add: is_word_def)
  show ?thesis
    using buildUrl_join_and_scalar[of "''/api''" "''users/:id''" example_sdk user_by_id example_env
        "JStr ''a b''" "''/api/users/''" "''id''" "[]"]
      buildUrl_join_and_scalar[of "''/api''" "''orgs/:org/users/:id''" example_sdk member_of_org example_env
        "JNum ''2''" "''/api/orgs/''" "''org''" "''/users/:id''"] w
    by (simp add: example_sdk_def example_base_def user_by_id_def member_of_org_def example_env_def
        set_pathname_def special_pathname_examples enc encode_two)
qed

text \<open>
  The claim has exactly one slash between the base path and the template, and the
  placeholder replaced by the scalar. Two calls on the base \<^verbatim>\<open>http://h/api\<close> are
  counterexamples. With the template \<^verbatim>\<open>//users\<close> one leading slash is trimmed and two
  slashes stand between \<^verbatim>\<open>api\<close> and \<^verbatim>\<open>users\<close>. With the template
  \<^verbatim>\<open>/users/:id\<close> and the scalar \<^verbatim>\<open>..\<close> the path assigned is
  \<^verbatim>\<open>/api/users/..\<close>, and the URL that results is \<^verbatim>\<open>http://h/api/\<close>: the assignment
  resolves the dot segment.
\<close>

theorem double_slash_and_dot_segment:
  "map_sum id href (buildUrl example_env example_sdk double_slash JUndefined) = Inr ''http://h/api//users''
   \<and> map_sum id href (buildUrl example_env example_sdk user_by_id (JStr ''..'')) = Inr ''http://h/api/''"
proof -
  have enc: "encodeURIComponent ''..'' = ''..''" by code_simp
  show ?thesis
    by (simp add: buildUrl_def Let_def join_paths_def strip_trailing_slash_def strip_leading_slash_def
        example_sdk_def example_base_def double_slash_def user_by_id_def example_env_def
        set_pathname_def special_pathname_examples substitute_scalar_def is_word_def enc href_def)
qed

section \<open>The argument resolver\<close>








section \<open>The caller's argument object\<close>

text \<open>
  C10. A call with a single object argument leaves the caller's object as it was: the
  spread makes a copy in a new cell, \<^verbatim>\<open>delete\<close> removes \<^verbatim>\<open>$params\<close> from the copy,
  and every cell that existed before the call, the caller's among them, holds after the
  call what it held before, its \<^verbatim>\<open>$params\<close> entry included. What the call does and
  returns is what the generated function does on the value of the caller's object. The
  copy is the one cell the call adds; where the platform does not define
  \<^verbatim>\<open>HTMLFormElement\<close> the call is rejected before the copy is made, and the store is
  as it was.
\<close>

theorem caller_object_untouched:
  assumes "a < length h"
  shows "\<exists>h' r. fetch_fn_ref this e ep dp h a = Some (h', r)
       \<and> h' ! a = h ! a
       \<and> (\<forall>i<length h. h' ! i = h ! i)
       \<and> lookup (h' ! a) ''$params'' = lookup (h ! a) ''$params''
       \<and> length h' = (if has_HTMLFormElement e then Suc (length h) else length h)
       \<and> r = fetch_fn this e ep dp (JObj (h ! a)) JUndefined"
proof (cases "has_HTMLFormElement e")
  case False
  then have "fetch_fn_ref this e ep dp h a =
      Some (h, [], Rejects (ThrownError (ReferenceError ''HTMLFormElement is not defined'')))"
    using assms by (simp add: fetch_fn_ref_def instanceof_HTMLFormElement_def)
  moreover have "fetch_fn this e ep dp (JObj (h ! a)) JUndefined =
      ([], Rejects (ThrownError (ReferenceError ''HTMLFormElement is not defined'')))"
    using False by (simp add: fetch_fn_def resolve_args_def instanceof_HTMLFormElement_def)
  ultimately show ?thesis using False by simp
next
  case browser: True
  show ?thesis
  proof (cases "truthy (lookup (h ! a) ''$params'') \<and> typeof_object (lookup (h ! a) ''$params'')")
    case False
    then have "fetch_fn_ref this e ep dp h a =
        Some (h @ [h ! a], run_call this e ep dp JUndefined (JObj (h ! a)))"
      using assms browser
      by (auto simp: fetch_fn_ref_def store_alloc_def Let_def instanceof_HTMLFormElement_def)
    moreover have "fetch_fn this e ep dp (JObj (h ! a)) JUndefined =
        run_call this e ep dp JUndefined (JObj (h ! a))"
      using False browser
      by (auto simp: fetch_fn_def resolve_args_def Let_def instanceof_HTMLFormElement_def)
    ultimately show ?thesis using assms browser by (simp add: nth_append)
  next
    case True
    show ?thesis
    proof (cases "check_params (own_entries (lookup (h ! a) ''$params''))")
      case None
      have "fetch_fn_ref this e ep dp h a =
          Some ((h @ [h ! a])[length h := AList.delete ''$params'' (h ! a)],
                run_call this e ep dp (lookup (h ! a) ''$params'') (JObj (AList.delete ''$params'' (h ! a))))"
        using assms True None browser
        by (simp add: fetch_fn_ref_def store_alloc_def store_delete_def Let_def
            instanceof_HTMLFormElement_def)
      moreover have "fetch_fn this e ep dp (JObj (h ! a)) JUndefined =
          run_call this e ep dp (lookup (h ! a) ''$params'') (JObj (AList.delete ''$params'' (h ! a)))"
        using True None browser
        by (simp add: fetch_fn_def resolve_args_def Let_def instanceof_HTMLFormElement_def)
      ultimately show ?thesis using assms browser by (simp add: nth_append nth_list_update)
    next
      case (Some er)
      have "fetch_fn_ref this e ep dp h a = Some (h @ [h ! a], [], Rejects (ThrownError er))"
        using assms True Some browser
        by (simp add: fetch_fn_ref_def store_alloc_def Let_def instanceof_HTMLFormElement_def)
      moreover have "fetch_fn this e ep dp (JObj (h ! a)) JUndefined = ([], Rejects (ThrownError er))"
        using True Some browser
        by (simp add: fetch_fn_def resolve_args_def Let_def instanceof_HTMLFormElement_def)
      ultimately show ?thesis using assms browser by (simp add: nth_append)
    qed
  qed
qed

theorem caller_object_untouched_witness:
  "(0::nat) < length caller_store
   \<and> fetch_fn_ref example_sdk example_env user_by_id ''users.update'' caller_store 0 =
       Some ([scalar_bag, [(''name'', JStr ''x'')]],
             fetch_fn example_sdk example_env user_by_id ''users.update'' (JObj scalar_bag) JUndefined)
   \<and> lookup scalar_bag ''$params'' = JObj [(''id'', JNum ''2'')]"
  using caller_object_untouched[of 0 caller_store example_sdk example_env user_by_id "''users.update''"]
  by (simp add: caller_store_def scalar_bag_def lookup_def fetch_fn_ref_def store_alloc_def
      store_delete_def AList.delete_eq Let_def fetch_fn_def resolve_args_def
      instanceof_HTMLFormElement_def example_env_def)

section \<open>The dispatcher, the 401 hook and the failure envelope\<close>

text \<open>A call that gets as far as the \<^verbatim>\<open>try\<close> block, from there on.\<close>

lemma fetch_fn_prepared:
  assumes "fetch_arguments this e ep a b = Some (u, hs, body)"
  shows "fetch_fn this e ep dp a b =
     (case try_block this e ep u hs body of
        (events, Returned result) \<Rightarrow> (SessionRead # events, Resolves result)
      | (events, Thrown error) \<Rightarrow>
          (SessionRead # events @ [ConsoleError (error_log dp ep u) error],
           snd (catch_block dp ep u error))
      | (events, Suspended) \<Rightarrow> (SessionRead # events, NeverSettles))"
  using assms
  by (auto simp: fetch_arguments_def fetch_fn_def run_call_def catch_block_def
      split: sum.splits prod.splits try_result.splits)

lemma http_reply_run:
  assumes "http_reply this e ep a b = Some fr"
  obtains u hs body ms where "fetch_arguments this e ep a b = Some (u, hs, body)"
    and "AbortSignal_timeout e (requestTimeout this) = Inr ms"
    and "issued_request this e ep a b = Some (make_request ep u hs body ms)"
    and "platform_fetch e (make_request ep u hs body ms) = fr"
  using assms
  by (auto simp: http_reply_def issued_request_def split: sum.splits option.splits prod.splits)

lemma catch_block_outcome:
  "snd (catch_block dp ep u er) =
     (case failure_message er of
        Inl te \<Rightarrow> Rejects (ThrownError te)
      | Inr message \<Rightarrow> Resolves (failure_envelope message er))"
  by (simp add: catch_block_def)

text \<open>What the \<^verbatim>\<open>catch\<close> block makes of what it has caught.\<close>

lemma failure_message_error:
  "failure_message (ThrownError x) =
     Inr (if err_name x = ''TimeoutError'' then JStr ''Request timed out''
          else if err_message x \<noteq> [] then JStr (err_message x)
          else JStr ''A client-side error occurred.'')"
  by (simp add: failure_message_def js_or_def)




text \<open>What the generated function does once the transport has answered 401.\<close>

lemma unauthorized_call:
  assumes "http_reply this e ep a b = Some (FetchResolves r)" and "resp_status r = 401"
  obtains rq u where "issued_request this e ep a b = Some rq"
    and "fetch_fn this e ep dp a b =
      (case onInvalidCredential this (make_result r) of
         CbVoid result' \<Rightarrow>
           ([SessionRead, FetchIssued rq, CallbackInvoked (make_result r), CallbackAwaited],
            Resolves result')
       | CbFulfils result' \<Rightarrow>
           ([SessionRead, FetchIssued rq, CallbackInvoked (make_result r), CallbackAwaited],
            Resolves result')
       | CbThrows er \<Rightarrow> ([SessionRead, FetchIssued rq, CallbackInvoked (make_result r),
                          ConsoleError (error_log dp ep u) er],
                         snd (catch_block dp ep u er))
       | CbRejects er \<Rightarrow> ([SessionRead, FetchIssued rq, CallbackInvoked (make_result r), CallbackAwaited,
                           ConsoleError (error_log dp ep u) er],
                          snd (catch_block dp ep u er))
       | CbNeverSettles \<Rightarrow> ([SessionRead, FetchIssued rq, CallbackInvoked (make_result r)],
                            NeverSettles))"
proof -
  from assms(1) obtain u hs body ms where args: "fetch_arguments this e ep a b = Some (u, hs, body)"
    and ms: "AbortSignal_timeout e (requestTimeout this) = Inr ms"
    and rq: "issued_request this e ep a b = Some (make_request ep u hs body ms)"
    and fr: "platform_fetch e (make_request ep u hs body ms) = FetchResolves r"
    by (rule http_reply_run)
  have st: "status (make_result r) = 401" using assms(2) by (simp add: make_result_def)
  have "fetch_fn this e ep dp a b =
      (case onInvalidCredential this (make_result r) of
         CbVoid result' \<Rightarrow>
           ([SessionRead, FetchIssued (make_request ep u hs body ms), CallbackInvoked (make_result r),
             CallbackAwaited], Resolves result')
       | CbFulfils result' \<Rightarrow>
           ([SessionRead, FetchIssued (make_request ep u hs body ms), CallbackInvoked (make_result r),
             CallbackAwaited], Resolves result')
       | CbThrows er \<Rightarrow> ([SessionRead, FetchIssued (make_request ep u hs body ms),
                          CallbackInvoked (make_result r), ConsoleError (error_log dp ep u) er],
                         snd (catch_block dp ep u er))
       | CbRejects er \<Rightarrow> ([SessionRead, FetchIssued (make_request ep u hs body ms),
                           CallbackInvoked (make_result r), CallbackAwaited,
                           ConsoleError (error_log dp ep u) er],
                          snd (catch_block dp ep u er))
       | CbNeverSettles \<Rightarrow> ([SessionRead, FetchIssued (make_request ep u hs body ms),
                             CallbackInvoked (make_result r)], NeverSettles))"
    unfolding fetch_fn_prepared[OF args]
    using ms fr st by (simp add: try_block_def after_response_def Let_def split: cb_result.splits)
  with rq show ?thesis using that by simp
qed

text \<open>
  C1, as the code has it. When the transport answers 401, the callback is invoked once,
  with the envelope of status 401. The call waits for it: while the callback's promise is
  not settled the call's promise is not settled either. When the callback returns, or its
  promise is fulfilled, the call resolves with that envelope object, as the callback has
  left it. If the callback has not written to it, it is the envelope of status 401, with
  \<open>success\<close> and \<open>ok\<close> false (they are the response's \<^verbatim>\<open>ok\<close>, which the Fetch
  standard makes false for 401).
\<close>

theorem unauthorized_invokes_callback_once:
  assumes "http_reply this e ep a b = Some (FetchResolves r)" and "resp_status r = 401"
  shows "callback_invocations (fst (fetch_fn this e ep dp a b)) = [make_result r]
       \<and> status (make_result r) = 401
       \<and> (onInvalidCredential this (make_result r) = CbNeverSettles \<longrightarrow>
            snd (fetch_fn this e ep dp a b) = NeverSettles)
       \<and> (\<forall>result'. onInvalidCredential this (make_result r) = CbVoid result' \<or>
                     onInvalidCredential this (make_result r) = CbFulfils result' \<longrightarrow>
            snd (fetch_fn this e ep dp a b) = Resolves result' \<and>
            CallbackAwaited \<in> set (fst (fetch_fn this e ep dp a b)) \<and>
            (result' = make_result r \<longrightarrow>
               status result' = 401 \<and>
               (fetch_standard r \<longrightarrow> \<not> success result' \<and> \<not> ok result')))"
proof -
  from assms obtain rq u where call: "fetch_fn this e ep dp a b =
      (case onInvalidCredential this (make_result r) of
         CbVoid result' \<Rightarrow>
           ([SessionRead, FetchIssued rq, CallbackInvoked (make_result r), CallbackAwaited],
            Resolves result')
       | CbFulfils result' \<Rightarrow>
           ([SessionRead, FetchIssued rq, CallbackInvoked (make_result r), CallbackAwaited],
            Resolves result')
       | CbThrows er \<Rightarrow> ([SessionRead, FetchIssued rq, CallbackInvoked (make_result r),
                          ConsoleError (error_log dp ep u) er],
                         snd (catch_block dp ep u er))
       | CbRejects er \<Rightarrow> ([SessionRead, FetchIssued rq, CallbackInvoked (make_result r), CallbackAwaited,
                           ConsoleError (error_log dp ep u) er],
                          snd (catch_block dp ep u er))
       | CbNeverSettles \<Rightarrow> ([SessionRead, FetchIssued rq, CallbackInvoked (make_result r)],
                            NeverSettles))"
    by (rule unauthorized_call[where dp = dp]) blast
  have once: "callback_invocations (fst (fetch_fn this e ep dp a b)) = [make_result r]"
    unfolding call by (cases "onInvalidCredential this (make_result r)") simp_all
  have st: "status (make_result r) = 401" using assms(2) by (simp add: make_result_def)
  have std: "fetch_standard r \<Longrightarrow> \<not> success (make_result r) \<and> \<not> ok (make_result r)"
    using assms(2) by (simp add: fetch_standard_def make_result_def)
  show ?thesis
    using once st std unfolding call by auto
qed

lemma unauthorized_reply:
  "http_reply (example_sdk\<lparr>onInvalidCredential := cb\<rparr>) unauthorized_env user_by_id (JNum ''2'') JUndefined =
     Some (FetchResolves unauthorized_response)"
proof -
  have sub: "substitute_scalar (JNum ''2'') ''/api/users/:id'' = ''/api/users/2''"
    by (simp add: substitute_scalar_def is_word_def encode_two)
  have sig: "example_signal (JNum ''30000'') = Inr 30000"
    by (simp add: example_signal_def is_digit_def decimal_value_def)
  show ?thesis
    by (simp add: http_reply_def issued_request_def fetch_arguments_def resolve_args_def
        prepare_request_def buildUrl_def Let_def join_paths_def strip_trailing_slash_def
        strip_leading_slash_def set_pathname_def special_pathname_examples sub
        prepareRequestBodyAndHeaders_def merge_headers_def new_Headers_def headers_append_def
        legal_header_def is_byte_string_def is_header_name_def is_tchar_def is_alnum_def
        is_header_value_def normalize_value_def http_whitespace_def inject_token_def
        bearer_token_def session_def session_prop_def lookup_def js_or_def sig
        platform_fetch_def unauthorized_env_def example_env_def at_once_def exceeds_def
        example_sdk_def example_base_def user_by_id_def unauthorized_response_def)
qed
text \<open>The example call \<^verbatim>\<open>getById(2)\<close> up to the \<^verbatim>\<open>try\<close> block, and its signal.\<close>

lemma accept_headers:
  "merge_headers [(''Accept'', ''application/json'')] [] = Inr [(''Accept'', ''application/json'')]"
  by (simp add: merge_headers_def new_Headers_def headers_append_def legal_header_def
      is_byte_string_def is_header_name_def is_tchar_def is_alnum_def is_header_value_def
      normalize_value_def http_whitespace_def)

lemma example_arguments:
  assumes "baseUrl this = example_base" and "defaultHeaders this = [(''Accept'', ''application/json'')]"
    and "URL_pathname e = (\<lambda>_. special_pathname)" and "localStorage e = StorageUndefined"
  shows "fetch_arguments this e user_by_id (JNum ''2'') JUndefined =
     Some (example_base\<lparr>pathname := ''/api/users/2''\<rparr>, [(''Accept'', ''application/json'')], None)"
proof -
  have sub: "substitute_scalar (JNum ''2'') ''/api/users/:id'' = ''/api/users/2''"
    by (simp add: substitute_scalar_def is_word_def encode_two)
  show ?thesis
    using assms
    by (simp add: fetch_arguments_def resolve_args_def prepare_request_def buildUrl_def Let_def
        join_paths_def strip_trailing_slash_def strip_leading_slash_def set_pathname_def
        special_pathname_examples sub prepareRequestBodyAndHeaders_def accept_headers
        inject_token_def bearer_token_def session_def session_prop_def lookup_def js_or_def
        example_base_def user_by_id_def)
qed

lemma example_signal_default: "example_signal (JNum ''30000'') = Inr 30000"
  by (simp add: example_signal_def is_digit_def decimal_value_def)


theorem unauthorized_invokes_callback_once_witness:
  "http_reply example_sdk unauthorized_env user_by_id (JNum ''2'') JUndefined =
     Some (FetchResolves unauthorized_response)
   \<and> resp_status unauthorized_response = 401
   \<and> onInvalidCredential example_sdk (make_result unauthorized_response) =
       CbFulfils (make_result unauthorized_response)
   \<and> fetch_standard unauthorized_response
   \<and> callback_invocations (fst (fetch_fn example_sdk unauthorized_env user_by_id ''users.getById''
        (JNum ''2'') JUndefined)) = [make_result unauthorized_response]
   \<and> snd (fetch_fn example_sdk unauthorized_env user_by_id ''users.getById'' (JNum ''2'') JUndefined) =
       Resolves (make_result unauthorized_response)
   \<and> status (make_result unauthorized_response) = 401
   \<and> \<not> success (make_result unauthorized_response) \<and> \<not> ok (make_result unauthorized_response)
   \<and> onInvalidCredential overwriting_sdk (make_result unauthorized_response) =
       CbVoid ((make_result unauthorized_response)\<lparr>status := 200\<rparr>)
   \<and> callback_invocations (fst (fetch_fn overwriting_sdk unauthorized_env user_by_id ''users.getById''
        (JNum ''2'') JUndefined)) = [make_result unauthorized_response]
   \<and> snd (fetch_fn overwriting_sdk unauthorized_env user_by_id ''users.getById'' (JNum ''2'') JUndefined) =
       Resolves ((make_result unauthorized_response)\<lparr>status := 200\<rparr>)"
proof -
  have reply: "http_reply example_sdk unauthorized_env user_by_id (JNum ''2'') JUndefined =
      Some (FetchResolves unauthorized_response)"
    using unauthorized_reply[of CbFulfils] by (simp add: example_sdk_def)
  have reply': "http_reply overwriting_sdk unauthorized_env user_by_id (JNum ''2'') JUndefined =
      Some (FetchResolves unauthorized_response)"
    unfolding overwriting_sdk_def by (rule unauthorized_reply)
  have cb': "onInvalidCredential overwriting_sdk (make_result unauthorized_response) =
      CbVoid ((make_result unauthorized_response)\<lparr>status := 200\<rparr>)"
    by (simp add: overwriting_sdk_def)
  have st: "resp_status unauthorized_response = 401" by (simp add: unauthorized_response_def)
  have cb: "onInvalidCredential example_sdk (make_result unauthorized_response) =
      CbFulfils (make_result unauthorized_response)"
    by (simp add: example_sdk_def)
  have std: "fetch_standard unauthorized_response"
    by (simp add: fetch_standard_def unauthorized_response_def)
  note plain = unauthorized_invokes_callback_once[OF reply st, of "''users.getById''"]
  note writing = unauthorized_invokes_callback_once[OF reply' st, of "''users.getById''"]
  from plain have once: "callback_invocations (fst (fetch_fn example_sdk unauthorized_env user_by_id
      ''users.getById'' (JNum ''2'') JUndefined)) = [make_result unauthorized_response]"
    by (rule conjunct1)
  from plain cb have kept: "snd (fetch_fn example_sdk unauthorized_env user_by_id ''users.getById''
      (JNum ''2'') JUndefined) = Resolves (make_result unauthorized_response)"
    by blast
  from plain cb std have flags: "status (make_result unauthorized_response) = 401 \<and>
      \<not> success (make_result unauthorized_response) \<and> \<not> ok (make_result unauthorized_response)"
    by blast
  from writing have once': "callback_invocations (fst (fetch_fn overwriting_sdk unauthorized_env
      user_by_id ''users.getById'' (JNum ''2'') JUndefined)) = [make_result unauthorized_response]"
    by (rule conjunct1)
  from writing cb' have written: "snd (fetch_fn overwriting_sdk unauthorized_env user_by_id
      ''users.getById'' (JNum ''2'') JUndefined) =
      Resolves ((make_result unauthorized_response)\<lparr>status := 200\<rparr>)"
    by blast
  show ?thesis
    using reply st cb std once kept flags cb' once' written by (intro conjI) simp_all
qed

lemma unauthorized_example_call:
  "fetch_fn (example_sdk\<lparr>onInvalidCredential := cb\<rparr>) unauthorized_env user_by_id dp (JNum ''2'') JUndefined =
     (case cb (make_result unauthorized_response) of
        CbVoid result' \<Rightarrow>
          ([SessionRead,
            FetchIssued (make_request user_by_id (example_base\<lparr>pathname := ''/api/users/2''\<rparr>)
                           [(''Accept'', ''application/json'')] None 30000),
            CallbackInvoked (make_result unauthorized_response), CallbackAwaited], Resolves result')
      | CbFulfils result' \<Rightarrow>
          ([SessionRead,
            FetchIssued (make_request user_by_id (example_base\<lparr>pathname := ''/api/users/2''\<rparr>)
                           [(''Accept'', ''application/json'')] None 30000),
            CallbackInvoked (make_result unauthorized_response), CallbackAwaited], Resolves result')
      | CbThrows er \<Rightarrow>
          ([SessionRead,
            FetchIssued (make_request user_by_id (example_base\<lparr>pathname := ''/api/users/2''\<rparr>)
                           [(''Accept'', ''application/json'')] None 30000),
            CallbackInvoked (make_result unauthorized_response),
            ConsoleError (error_log dp user_by_id (example_base\<lparr>pathname := ''/api/users/2''\<rparr>)) er],
           snd (catch_block dp user_by_id (example_base\<lparr>pathname := ''/api/users/2''\<rparr>) er))
      | CbRejects er \<Rightarrow>
          ([SessionRead,
            FetchIssued (make_request user_by_id (example_base\<lparr>pathname := ''/api/users/2''\<rparr>)
                           [(''Accept'', ''application/json'')] None 30000),
            CallbackInvoked (make_result unauthorized_response), CallbackAwaited,
            ConsoleError (error_log dp user_by_id (example_base\<lparr>pathname := ''/api/users/2''\<rparr>)) er],
           snd (catch_block dp user_by_id (example_base\<lparr>pathname := ''/api/users/2''\<rparr>) er))
      | CbNeverSettles \<Rightarrow>
          ([SessionRead,
            FetchIssued (make_request user_by_id (example_base\<lparr>pathname := ''/api/users/2''\<rparr>)
                           [(''Accept'', ''application/json'')] None 30000),
            CallbackInvoked (make_result unauthorized_response)], NeverSettles))"
proof -
  have args: "fetch_arguments (example_sdk\<lparr>onInvalidCredential := cb\<rparr>) unauthorized_env user_by_id
      (JNum ''2'') JUndefined =
      Some (example_base\<lparr>pathname := ''/api/users/2''\<rparr>, [(''Accept'', ''application/json'')], None)"
    by (rule example_arguments) (simp_all add: example_sdk_def unauthorized_env_def example_env_def)
  show ?thesis
    unfolding fetch_fn_prepared[OF args]
    by (simp add: try_block_def after_response_def Let_def example_sdk_def unauthorized_env_def
        example_env_def example_signal_default platform_fetch_def at_once_def exceeds_def
        make_result_def unauthorized_response_def split: cb_result.splits)
qed

text \<open>
  The claim promises the envelope of status 401 for every callback. Two callbacks are
  counterexamples. One throws: the exception is caught by the \<^verbatim>\<open>try\<close> around the whole
  dispatch, and the caller gets the failure envelope of status 0. One sets the status of
  the envelope it is handed to 200 and returns: the caller gets that same object, with
  status 200.
\<close>

theorem throwing_callback_loses_401:
  "http_reply throwing_sdk unauthorized_env user_by_id (JNum ''2'') JUndefined =
     Some (FetchResolves unauthorized_response)
   \<and> resp_status unauthorized_response = 401
   \<and> snd (fetch_fn throwing_sdk unauthorized_env user_by_id ''users.getById'' (JNum ''2'') JUndefined) =
       Resolves (failure_envelope (JStr ''redirect failed'') redirect_failed)
   \<and> status (failure_envelope (JStr ''redirect failed'') redirect_failed) = 0
   \<and> http_reply overwriting_sdk unauthorized_env user_by_id (JNum ''2'') JUndefined =
       Some (FetchResolves unauthorized_response)
   \<and> snd (fetch_fn overwriting_sdk unauthorized_env user_by_id ''users.getById'' (JNum ''2'') JUndefined) =
       Resolves ((make_result unauthorized_response)\<lparr>status := 200\<rparr>)
   \<and> status ((make_result unauthorized_response)\<lparr>status := 200\<rparr>) = 200"
  by (simp add: throwing_sdk_def overwriting_sdk_def unauthorized_reply unauthorized_example_call
      catch_block_outcome redirect_failed_def failure_message_error Error_def
      failure_envelope_def unauthorized_response_def)










section \<open>Bodies and query parameters\<close>





lemma stringify_empty_object: "JSON_stringify (JObj []) = Some ''{}''"
  by simp






section \<open>The bearer token\<close>










lemma non_empty_string: "(truthy v \<and> typeof_string v) = (\<exists>t. v = JStr t \<and> t \<noteq> [])"
  by (cases v) auto











end
